theory Spec2Isabelle
  imports Complex_Main "HOL-Library.Sublist"
begin

section \<open>Python values, exceptions and effects\<close>

text \<open>
  The script \<^verbatim>\<open>scripts/run_model_ollama.py\<close> drives a model-serving daemon through
  HTTP, a chat library, the filesystem and a subprocess. Everything it receives from
  outside is a Python value: a parsed JSON document, an exception, a line of input.
  Floats keep Python's comparison behaviour at the non-finite values; the script only
  compares them.
\<close>

datatype pyfloat = Finite real | PosInf | NegInf | NaN

datatype pyval =
    VNone
  | VBool bool
  | VInt int
  | VFloat pyfloat
  | VStr string
  | VList "pyval list"
  | VDict "(string \<times> pyval) list"

text \<open>
  Exception classes as far as the script's handlers tell them apart.
  \<open>RequestException\<close> stands for \<^verbatim>\<open>requests.exceptions.RequestException\<close> and its
  subclasses; \<open>KeyboardInterrupt\<close> and \<open>SystemExit\<close> derive from \<^verbatim>\<open>BaseException\<close>
  only, every other class from \<^verbatim>\<open>Exception\<close>.
\<close>

datatype exn_class =
    RequestException | ValueError | KeyError | TypeError | AttributeError
  | OSError | EOFError | ResponseError | KeyboardInterrupt | SystemExit

datatype py_exn =
    Exn exn_class string
  | CalledProcessError string pyval pyval

fun is_RequestException :: "py_exn \<Rightarrow> bool" where
  "is_RequestException (Exn c _) = (c = RequestException)"
| "is_RequestException (CalledProcessError _ _ _) = False"

fun is_Exception :: "py_exn \<Rightarrow> bool" where
  "is_Exception (Exn c _) = (c \<noteq> KeyboardInterrupt \<and> c \<noteq> SystemExit)"
| "is_Exception (CalledProcessError _ _ _) = True"

text \<open>
  A printed line is kept as the pieces of its f-string: literal text, and the values
  that \<^verbatim>\<open>str()\<close> would render.
\<close>

datatype piece = Text string | Str_of pyval | Str_of_exn py_exn

fun fmt :: "pyval \<Rightarrow> piece" where
  "fmt (VStr s) = Text s"
| "fmt v = Str_of v"

record chat_request =
  model :: string
  messages :: pyval
  options :: pyval
  stream :: bool

datatype effect =
    Print "piece list"
  | Write "piece list"
  | Input string
  | Http_get string "int option"
  | Http_post string pyval
  | Path_exists string
  | Path_isfile string
  | Os_walk string
  | File_open_w string
  | File_write string string
  | Run_process "string list"
  | Chat chat_request
  | Sys_exit int

type_synonym 'a result = "effect list \<times> (py_exn + 'a)"

definition nl :: char where
  "nl = CHR 0x0A"

definition dq :: char where
  "dq = CHR 0x22"

subsection \<open>Truthiness, membership, subscripting\<close>

fun truthy :: "pyval \<Rightarrow> bool" where
  "truthy VNone = False"
| "truthy (VBool b) = b"
| "truthy (VInt i) = (i \<noteq> 0)"
| "truthy (VFloat (Finite r)) = (r \<noteq> 0)"
| "truthy (VFloat _) = True"
| "truthy (VStr s) = (s \<noteq> [])"
| "truthy (VList xs) = (xs \<noteq> [])"
| "truthy (VDict kvs) = (kvs \<noteq> [])"

text \<open>\<^verbatim>\<open>k in data\<close> for a string \<open>k\<close>.\<close>

fun py_contains :: "string \<Rightarrow> pyval \<Rightarrow> py_exn + bool" where
  "py_contains k (VDict kvs) = Inr (k \<in> fst ` set kvs)"
| "py_contains k (VList xs) = Inr (VStr k \<in> set xs)"
| "py_contains k (VStr s) = Inr (sublist k s)"
| "py_contains k _ = Inl (Exn TypeError ''not iterable'')"

text \<open>\<^verbatim>\<open>data[k]\<close> for a string \<open>k\<close>.\<close>

fun py_getitem :: "pyval \<Rightarrow> string \<Rightarrow> py_exn + pyval" where
  "py_getitem (VDict kvs) k =
     (case map_of kvs k of Some v \<Rightarrow> Inr v | None \<Rightarrow> Inl (Exn KeyError k))"
| "py_getitem (VList _) k = Inl (Exn TypeError ''indices must be integers'')"
| "py_getitem (VStr _) k = Inl (Exn TypeError ''indices must be integers'')"
| "py_getitem _ k = Inl (Exn TypeError ''not subscriptable'')"

text \<open>\<^verbatim>\<open>data.get(k, default)\<close>: only a dict has the method.\<close>

fun py_get :: "pyval \<Rightarrow> string \<Rightarrow> pyval \<Rightarrow> py_exn + pyval" where
  "py_get (VDict kvs) k d = (case map_of kvs k of Some v \<Rightarrow> Inr v | None \<Rightarrow> Inr d)"
| "py_get _ k d = Inl (Exn AttributeError ''get'')"

text \<open>\<^verbatim>\<open>for x in v\<close>: the values a \<^verbatim>\<open>for\<close> loop visits.\<close>

fun py_iter :: "pyval \<Rightarrow> py_exn + pyval list" where
  "py_iter (VList xs) = Inr xs"
| "py_iter (VDict kvs) = Inr (map VStr (remdups (map fst kvs)))"
| "py_iter (VStr s) = Inr (map (\<lambda>c. VStr [c]) s)"
| "py_iter _ = Inl (Exn TypeError ''not iterable'')"

section \<open>The daemon client\<close>

text \<open>
  A response as the client reads it: the status code, what \<^verbatim>\<open>response.json()\<close> gives,
  and what \<^verbatim>\<open>response.iter_lines()\<close> yields. A streamed line is empty, or
  \<^verbatim>\<open>json.loads(line.decode('utf-8'))\<close> raises on it (a \<^verbatim>\<open>ValueError\<close>: bad UTF-8 or
  bad JSON), or it decodes to a value. The iteration ends normally or by raising.
\<close>

datatype line = Blank | Undecodable | Data pyval

record http_response =
  status_code :: int
  json_body :: "py_exn + pyval"
  iter_lines :: "line list"
  iter_end :: "py_exn option"

text \<open>The world outside the process: what each call gives when it is made.\<close>

record world =
  http_get :: "string \<Rightarrow> int option \<Rightarrow> py_exn + http_response"
  http_post :: "string \<Rightarrow> pyval \<Rightarrow> py_exn + http_response"
  path_exists :: "string \<Rightarrow> bool"
  path_isfile :: "string \<Rightarrow> bool"
  os_walk :: "string \<Rightarrow> (string \<times> string list \<times> string list) list"
  open_w :: "string \<Rightarrow> py_exn option"
  file_write :: "string \<Rightarrow> string \<Rightarrow> py_exn option"
  run_process :: "string list \<Rightarrow> py_exn option"

record OllamaClient =
  base_url :: string

text \<open>\<^verbatim>\<open>except requests.exceptions.RequestException as e: print(...); return v\<close>\<close>

fun except_RequestException :: "string \<Rightarrow> 'a \<Rightarrow> 'a result \<Rightarrow> 'a result" where
  "except_RequestException label v (es, Inl e) =
     (if is_RequestException e then (es @ [Print [Text label, Str_of_exn e]], Inr v)
      else (es, Inl e))"
| "except_RequestException label v (es, Inr x) = (es, Inr x)"

definition check_ollama_running :: "OllamaClient \<Rightarrow> world \<Rightarrow> bool result" where
  "check_ollama_running c w =
     (let url = base_url c @ ''/api/tags'' in
      case http_get w url (Some 5) of
        Inr response \<Rightarrow> ([Http_get url (Some 5)], Inr (status_code response = 200))
      | Inl e \<Rightarrow>
          if is_RequestException e then ([Http_get url (Some 5)], Inr False)
          else ([Http_get url (Some 5)], Inl e))"

text \<open>\<^verbatim>\<open>[model["name"] for model in models]\<close>\<close>

fun names_of :: "pyval list \<Rightarrow> py_exn + pyval list" where
  "names_of [] = Inr []"
| "names_of (m # ms) =
     (case py_getitem m ''name'' of
        Inl e \<Rightarrow> Inl e
      | Inr v \<Rightarrow> (case names_of ms of Inl e \<Rightarrow> Inl e | Inr vs \<Rightarrow> Inr (v # vs)))"

definition list_models_body :: "http_response \<Rightarrow> py_exn + pyval list" where
  "list_models_body response =
     (if status_code response = 200 then
        (case json_body response of
           Inl e \<Rightarrow> Inl e
         | Inr doc \<Rightarrow>
             (case py_get doc ''models'' (VList []) of
                Inl e \<Rightarrow> Inl e
              | Inr models \<Rightarrow>
                  (case py_iter models of Inl e \<Rightarrow> Inl e | Inr ms \<Rightarrow> names_of ms)))
      else Inr [])"

definition list_models :: "OllamaClient \<Rightarrow> world \<Rightarrow> pyval list result" where
  "list_models c w =
     (let url = base_url c @ ''/api/tags'' in
      except_RequestException ''Error listing models: '' []
        (case http_get w url None of
           Inl e \<Rightarrow> ([Http_get url None], Inl e)
         | Inr response \<Rightarrow> ([Http_get url None], list_models_body response)))"

text \<open>
  The loop over the streamed lines, the same in \<^verbatim>\<open>pull_model\<close> and
  \<^verbatim>\<open>create_custom_model\<close> but for the message printed on success. Running off the end
  of the loop runs off the end of the function, which returns \<^verbatim>\<open>None\<close>.
\<close>

fun stream_events :: "string \<Rightarrow> line list \<Rightarrow> py_exn option \<Rightarrow> pyval result" where
  "stream_events success [] ending =
     (case ending of None \<Rightarrow> ([], Inr VNone) | Some e \<Rightarrow> ([], Inl e))"
| "stream_events success (Blank # ls) ending = stream_events success ls ending"
| "stream_events success (Undecodable # ls) ending = ([], Inl (Exn ValueError ''json.loads''))"
| "stream_events success (Data d # ls) ending =
     (case py_contains ''status'' d of
        Inl e \<Rightarrow> ([], Inl e)
      | Inr True \<Rightarrow>
          (case py_getitem d ''status'' of
             Inl e \<Rightarrow> ([], Inl e)
           | Inr s \<Rightarrow>
               (case stream_events success ls ending of
                  (es, r) \<Rightarrow> (Print [Text ''Status: '', fmt s] # es, r)))
      | Inr False \<Rightarrow>
          (case py_contains ''completed_at'' d of
             Inl e \<Rightarrow> ([], Inl e)
           | Inr True \<Rightarrow> ([Print [Text success]], Inr (VBool True))
           | Inr False \<Rightarrow> stream_events success ls ending))"

definition streamed_post ::
  "world \<Rightarrow> string \<Rightarrow> pyval \<Rightarrow> string \<Rightarrow> string \<Rightarrow> pyval result" where
  "streamed_post w url body success failed =
     (case http_post w url body of
        Inl e \<Rightarrow> ([Http_post url body], Inl e)
      | Inr response \<Rightarrow>
          if status_code response = 200 then
            (case stream_events success (iter_lines response) (iter_end response) of
               (es, r) \<Rightarrow> (Http_post url body # es, r))
          else
            ([Http_post url body,
              Print [Text failed, Str_of (VInt (status_code response))]],
             Inr (VBool False)))"

definition pull_model :: "OllamaClient \<Rightarrow> world \<Rightarrow> string \<Rightarrow> pyval result" where
  "pull_model c w model_name =
     except_RequestException ''Error pulling model: '' (VBool False)
       (case streamed_post w (base_url c @ ''/api/pull'')
               (VDict [(''name'', VStr model_name)])
               ''Model pulled successfully!'' ''Failed to pull model: '' of
          (es, r) \<Rightarrow>
            (Print [Text ''Pulling model: '', Text model_name] #
             Print [Text ''This may take several minutes depending on your internet connection...''] #
             es, r))"

definition modelfile_content :: "string \<Rightarrow> string" where
  "modelfile_content huggingface_model =
     ''FROM '' @ huggingface_model @ [nl] @
     ''TEMPLATE '' @ [dq] @ ''{{ .Prompt }}'' @ [dq] @ [nl]"

definition create_custom_model ::
  "OllamaClient \<Rightarrow> world \<Rightarrow> string \<Rightarrow> string \<Rightarrow> pyval result" where
  "create_custom_model c w model_name huggingface_model =
     except_RequestException ''Error creating custom model: '' (VBool False)
       (case streamed_post w (base_url c @ ''/api/create'')
               (VDict [(''name'', VStr model_name),
                       (''modelfile'', VStr (modelfile_content huggingface_model))])
               ''Custom model created successfully!'' ''Failed to create model: '' of
          (es, r) \<Rightarrow>
            (Print [Text ''Creating custom model '', Text [CHR 0x27], Text model_name,
                    Text [CHR 0x27], Text '' from Hugging Face: '', Text huggingface_model] #
             Print [Text ''This may take several minutes...''] #
             es, r))"

section \<open>Local registration and file discovery\<close>

text \<open>\<^verbatim>\<open>os.path.join\<close>, \<^verbatim>\<open>os.path.dirname\<close> and \<^verbatim>\<open>os.path.basename\<close> on POSIX paths.\<close>

definition path_join :: "string \<Rightarrow> string \<Rightarrow> string" where
  "path_join a b =
     (if b \<noteq> [] \<and> hd b = CHR ''/'' then b
      else if a = [] \<or> last a = CHR ''/'' then a @ b
      else a @ ''/'' @ b)"

definition basename :: "string \<Rightarrow> string" where
  "basename p = rev (takeWhile (\<lambda>c. c \<noteq> CHR ''/'') (rev p))"

definition dirname :: "string \<Rightarrow> string" where
  "dirname p =
     (let head = rev (dropWhile (\<lambda>c. c \<noteq> CHR ''/'') (rev p)) in
      if head \<noteq> [] \<and> \<not> list_all (\<lambda>c. c = CHR ''/'') head
      then rev (dropWhile (\<lambda>c. c = CHR ''/'') (rev head))
      else head)"

text \<open>The check mark of the success message, as the bytes of the source's literal.\<close>

definition check_mark :: string where
  "check_mark = [CHR 0xC3, CHR 0xA2, CHR 0xC5, CHR 0x93, CHR 0xE2, CHR 0x80, CHR 0xA6]"

text \<open>The two handlers of \<^verbatim>\<open>register_gguf_model\<close>, in the source's order.\<close>

fun except_register :: "pyval result \<Rightarrow> pyval result" where
  "except_register (es, Inr v) = (es, Inr v)"
| "except_register (es, Inl (CalledProcessError m out err)) =
     (es @ [Print [Text ''Error registering model: '', Str_of_exn (CalledProcessError m out err)],
            Print [Text ''stdout: '', fmt out],
            Print [Text ''stderr: '', fmt err]],
      Inr (VBool False))"
| "except_register (es, Inl (Exn c m)) =
     (if is_Exception (Exn c m)
      then (es @ [Print [Text ''Error: '', Str_of_exn (Exn c m)]], Inr (VBool False))
      else (es, Inl (Exn c m)))"

definition register_gguf_model ::
  "world \<Rightarrow> string \<Rightarrow> string \<Rightarrow> string \<Rightarrow> pyval result" where
  "register_gguf_model w model_folder gguf_filename model_name =
     (let gguf_path = path_join model_folder gguf_filename;
          modelfile_path = path_join model_folder ''Modelfile'';
          content = ''FROM ./'' @ gguf_filename @ [nl];
          cmd = [''ollama'', ''create'', model_name, ''-f'', modelfile_path]
      in
      if \<not> path_isfile w gguf_path then
        ([Path_isfile gguf_path, Print [Text ''GGUF file not found: '', Text gguf_path]],
         Inr (VBool False))
      else except_register
        (let es0 = [Path_isfile gguf_path, Print [Text ''Found GGUF file: '', Text gguf_path]] in
         case open_w w modelfile_path of
           Some e \<Rightarrow> (es0, Inl e)
         | None \<Rightarrow>
             (case file_write w modelfile_path content of
                Some e \<Rightarrow> (es0 @ [File_open_w modelfile_path], Inl e)
              | None \<Rightarrow>
                  (let es1 = es0 @
                         [File_open_w modelfile_path,
                          File_write modelfile_path content,
                          Print [Text ''Created Modelfile: '', Text modelfile_path],
                          Print [Text ''Registering model '', Text [CHR 0x27], Text model_name,
                                 Text [CHR 0x27], Text '' with Ollama...''],
                          Run_process cmd]
                   in case run_process w cmd of
                        Some e \<Rightarrow> (es1, Inl e)
                      | None \<Rightarrow>
                          (es1 @ [Print [Text check_mark, Text '' Model '', Text [CHR 0x27],
                                         Text model_name, Text [CHR 0x27],
                                         Text '' registered with Ollama'']],
                           Inr (VBool True))))))"

definition find_gguf_files :: "world \<Rightarrow> string \<Rightarrow> effect list \<times> string list" where
  "find_gguf_files w directory =
     (if path_exists w directory then
        ([Path_exists directory, Os_walk directory],
         concat (map (\<lambda>(root, dirs, files).
                        map (path_join root) (filter (suffix ''.gguf'') files))
                     (os_walk w directory)))
      else ([Path_exists directory], []))"

section \<open>Generation\<close>

text \<open>
  Python's \<^verbatim>\<open>min(a, b)\<close> gives \<open>a\<close> unless \<open>b < a\<close>, and \<^verbatim>\<open>max(a, b)\<close> gives \<open>a\<close>
  unless \<open>b > a\<close>; every comparison with \<open>NaN\<close> is false.
\<close>

fun float_less :: "pyfloat \<Rightarrow> pyfloat \<Rightarrow> bool" where
  "float_less NaN _ = False"
| "float_less _ NaN = False"
| "float_less (Finite a) (Finite b) = (a < b)"
| "float_less (Finite a) PosInf = True"
| "float_less (Finite a) NegInf = False"
| "float_less PosInf _ = False"
| "float_less NegInf (Finite b) = True"
| "float_less NegInf PosInf = True"
| "float_less NegInf NegInf = False"

definition py_min :: "pyfloat \<Rightarrow> pyfloat \<Rightarrow> pyfloat" where
  "py_min a b = (if float_less b a then b else a)"

definition py_max :: "pyfloat \<Rightarrow> pyfloat \<Rightarrow> pyfloat" where
  "py_max a b = (if float_less a b then b else a)"

definition chat_options :: "int \<Rightarrow> pyfloat \<Rightarrow> pyval" where
  "chat_options max_length temperature =
     VDict [(''temperature'', VFloat (py_max (Finite 0.1) (py_min (Finite 2.0) temperature))),
            (''num_predict'', VInt (min max_length 2048)),
            (''top_p'', VFloat (Finite 0.9)),
            (''top_k'', VInt 50),
            (''repeat_penalty'', VFloat (Finite 1.1))]"

definition user_messages :: "string \<Rightarrow> pyval" where
  "user_messages prompt = VList [VDict [(''role'', VStr ''user''), (''content'', VStr prompt)]]"

text \<open>\<^verbatim>\<open>except Exception as e: print(...); return None\<close>\<close>

fun except_generate :: "pyval result \<Rightarrow> pyval result" where
  "except_generate (es, Inr v) = (es, Inr v)"
| "except_generate (es, Inl e) =
     (if is_Exception e
      then (es @ [Print [Text ''Error generating text with ollama library: '', Str_of_exn e]],
            Inr VNone)
      else (es, Inl e))"

text \<open>\<^verbatim>\<open>x['message']['content']\<close>\<close>

definition message_content :: "pyval \<Rightarrow> py_exn + pyval" where
  "message_content x =
     (case py_getitem x ''message'' of
        Inl e \<Rightarrow> Inl e
      | Inr m \<Rightarrow> py_getitem m ''content'')"

definition generate_text_ollama_lib ::
  "(chat_request \<Rightarrow> py_exn + pyval) \<Rightarrow> string \<Rightarrow> string \<Rightarrow> int \<Rightarrow> pyfloat \<Rightarrow> pyval result" where
  "generate_text_ollama_lib chat model_name prompt max_length temperature =
     (let req = \<lparr>model = model_name, messages = user_messages prompt,
                 options = chat_options max_length temperature, stream = False\<rparr>
      in except_generate
           (case chat req of
              Inl e \<Rightarrow> ([Chat req], Inl e)
            | Inr response \<Rightarrow> ([Chat req], message_content response)))"

text \<open>
  The body of the streaming loop: the chunks the iterator yields, how the iteration
  ends, and the text accumulated so far.
\<close>

fun consume_chunks :: "pyval list \<Rightarrow> py_exn option \<Rightarrow> string \<Rightarrow> string result" where
  "consume_chunks [] ending full_response =
     (case ending of None \<Rightarrow> ([], Inr full_response) | Some e \<Rightarrow> ([], Inl e))"
| "consume_chunks (chunk # chunks) ending full_response =
     (case message_content chunk of
        Inl e \<Rightarrow> ([], Inl e)
      | Inr (VStr content) \<Rightarrow>
          (case consume_chunks chunks ending (full_response @ content) of
             (es, r) \<Rightarrow> (Write [Text content] # es, r))
      | Inr content \<Rightarrow>
          ([Write [Str_of content]], Inl (Exn TypeError ''can only concatenate str'')))"

definition generate_text_streaming_ollama_lib ::
  "(chat_request \<Rightarrow> pyval list \<times> py_exn option) \<Rightarrow> string \<Rightarrow> string \<Rightarrow> int \<Rightarrow> pyfloat
     \<Rightarrow> pyval result" where
  "generate_text_streaming_ollama_lib chat_stream model_name prompt max_length temperature =
     (let req = \<lparr>model = model_name, messages = user_messages prompt,
                 options = chat_options max_length temperature, stream = True\<rparr>
      in except_generate
           (case chat_stream req of
              (chunks, ending) \<Rightarrow>
                (case consume_chunks chunks ending [] of
                   (es, Inl e) \<Rightarrow> (Write [Text ''Response: ''] # Chat req # es, Inl e)
                 | (es, Inr full_response) \<Rightarrow>
                     (Write [Text ''Response: ''] # Chat req # es @ [Print []],
                      Inr (VStr full_response)))))"

section \<open>The setup resolver\<close>

text \<open>
  An optional string argument (\<^verbatim>\<open>None\<close> or a \<^verbatim>\<open>str\<close>) in a condition: \<^verbatim>\<open>None\<close> and the
  empty string are both false.
\<close>

fun truthy_opt :: "string option \<Rightarrow> bool" where
  "truthy_opt None = False"
| "truthy_opt (Some s) = (s \<noteq> [])"

definition check_and_setup_model ::
  "OllamaClient \<Rightarrow> world \<Rightarrow> string \<Rightarrow> string option \<Rightarrow> string option \<Rightarrow> pyval result" where
  "check_and_setup_model client w model_name huggingface_model gguf_path =
     (case check_ollama_running client w of
        (es1, Inl e) \<Rightarrow> (es1, Inl e)
      | (es1, Inr running) \<Rightarrow>
          if \<not> running then
            (es1 @ [Print [Text ''Error: Ollama is not running!''],
                    Print [Text ''Please start Ollama first by running: ollama serve'']],
             Inr (VBool False))
          else
            (case list_models client w of
               (es2, Inl e) \<Rightarrow> (es1 @ es2, Inl e)
             | (es2, Inr available_models) \<Rightarrow>
                 (let es = es1 @ es2 @
                        [Print [Text ''Available models: '', Str_of (VList available_models)]]
                  in
                  if VStr model_name \<in> set available_models then
                    (es @ [Print [Text ''Model '', Text model_name,
                                  Text '' is already available!'']],
                     Inr (VBool True))
                  else if truthy_opt gguf_path then
                    (case register_gguf_model w (dirname (the gguf_path))
                            (basename (the gguf_path)) model_name of
                       (es3, r) \<Rightarrow>
                         (es @ Print [Text ''Model '', Text model_name,
                                      Text '' not found. Registering GGUF model...''] # es3, r))
                  else if truthy_opt huggingface_model then
                    (case create_custom_model client w model_name (the huggingface_model) of
                       (es3, r) \<Rightarrow>
                         (es @ Print [Text ''Model '', Text model_name,
                                      Text '' not found. Creating custom model from Hugging Face...'']
                             # es3, r))
                  else
                    (case pull_model client w model_name of
                       (es3, r) \<Rightarrow>
                         (es @ Print [Text ''Model '', Text model_name,
                                      Text '' not found. Attempting to pull from Ollama library...'']
                             # es3, r)))))"

section \<open>The interactive loop\<close>

text \<open>
  \<^verbatim>\<open>str.strip()\<close> and \<^verbatim>\<open>str.lower()\<close>, on characters below 256 (one \<open>char\<close> per
  character).
\<close>

definition py_isspace :: "char \<Rightarrow> bool" where
  "py_isspace c =
     (let n = (of_char c :: nat) in (9 \<le> n \<and> n \<le> 13) \<or> (28 \<le> n \<and> n \<le> 32) \<or> n = 133 \<or> n = 160)"

definition py_strip :: "string \<Rightarrow> string" where
  "py_strip s = rev (dropWhile py_isspace (rev (dropWhile py_isspace s)))"

definition lower_char :: "char \<Rightarrow> char" where
  "lower_char c =
     (let n = (of_char c :: nat) in
      if (65 \<le> n \<and> n \<le> 90) \<or> (192 \<le> n \<and> n \<le> 222 \<and> n \<noteq> 215) then char_of (n + 32) else c)"

definition py_lower :: "string \<Rightarrow> string" where
  "py_lower s = map lower_char s"

text \<open>What one pass through the loop body decides.\<close>

datatype flow = Again | Stop | Propagate py_exn

text \<open>The two handlers of the loop, in the source's order.\<close>

fun except_interactive :: "effect list \<Rightarrow> py_exn \<Rightarrow> effect list \<times> flow" where
  "except_interactive es (Exn KeyboardInterrupt m) = (es @ [Print [Text (nl # ''Goodbye!'')]], Stop)"
| "except_interactive es e =
     (if is_Exception e then (es @ [Print [Text ''Error: '', Str_of_exn e]], Again)
      else (es, Propagate e))"

text \<open>
  One pass: \<^verbatim>\<open>input("You: ")\<close> returns a line or raises, then the commands are
  dispatched.
\<close>

definition interactive_turn ::
  "(chat_request \<Rightarrow> pyval list \<times> py_exn option) \<Rightarrow> string \<Rightarrow> py_exn + string
     \<Rightarrow> effect list \<times> flow" where
  "interactive_turn chat_stream model_name inp =
     (case inp of
        Inl e \<Rightarrow> except_interactive [Input ''You: ''] e
      | Inr raw \<Rightarrow>
          (let user_input = py_strip raw in
           if py_lower user_input = ''quit'' then
             ([Input ''You: '', Print [Text ''Goodbye!'']], Stop)
           else if py_lower user_input = ''help'' then
             ([Input ''You: '',
               Print [Text ''Commands:''],
               Print [Text ''  quit - Exit the program''],
               Print [Text ''  help - Show this help message''],
               Print [Text ''  clear - Clear the conversation'']], Again)
           else if py_lower user_input = ''clear'' then
             ([Input ''You: '', Print [Text (nl # replicate 50 CHR ''='' @ [nl])]], Again)
           else if user_input = [] then
             ([Input ''You: ''], Again)
           else
             (case generate_text_streaming_ollama_lib chat_stream model_name user_input
                     512 (Finite 0.7) of
                (es, Inl e) \<Rightarrow>
                  except_interactive
                    (Input ''You: '' # Print [Text ''Generating response...''] # es) e
              | (es, Inr response) \<Rightarrow>
                  (Input ''You: '' # Print [Text ''Generating response...''] # es @
                   (if \<not> truthy response then [Print [Text ''Failed to generate response.'']]
                    else []),
                   Again))))"

text \<open>
  \<^verbatim>\<open>while True\<close>: the loop may run forever, so its result is optional. The inputs are
  what each call of \<^verbatim>\<open>input\<close> gives; once they are used up, standard input is at its
  end and \<^verbatim>\<open>input\<close> raises \<^verbatim>\<open>EOFError\<close> at every call. The chat capability may answer
  differently at each pass.
\<close>

definition next_input :: "(py_exn + string) list \<Rightarrow> py_exn + string" where
  "next_input stdin =
     (case stdin of [] \<Rightarrow> Inl (Exn EOFError ''EOF when reading a line'') | x # _ \<Rightarrow> x)"

partial_function (option) interactive_loop ::
  "(nat \<Rightarrow> chat_request \<Rightarrow> pyval list \<times> py_exn option) \<Rightarrow> string \<Rightarrow> (py_exn + string) list
     \<Rightarrow> nat \<Rightarrow> effect list \<Rightarrow> unit result option" where
  "interactive_loop chats model_name stdin n acc =
     (let (es, fl) = interactive_turn (chats n) model_name (next_input stdin) in
      if fl = Again then interactive_loop chats model_name (tl stdin) (Suc n) (acc @ es)
      else if fl = Stop then Some (acc @ es, Inr ())
      else Some (acc @ es, Inl (case fl of Propagate e \<Rightarrow> e)))"

definition interactive_mode ::
  "(nat \<Rightarrow> chat_request \<Rightarrow> pyval list \<times> py_exn option) \<Rightarrow> string \<Rightarrow> (py_exn + string) list
     \<Rightarrow> unit result option" where
  "interactive_mode chats model_name stdin =
     interactive_loop chats model_name stdin 0
       [Print [Text (nl # ''=== Interactive Mode ==='')],
        Print [Text ''Type 'quit' to exit, 'help' for commands''],
        Print [Text (''Type your message and press Enter to generate a response.'' @ [nl])]]"

section \<open>The entry point\<close>

record args =
  arg_model :: string
  arg_prompt :: "string option"
  arg_max_length :: int
  arg_temperature :: pyfloat
  arg_ollama_url :: string
  arg_huggingface_model :: "string option"
  arg_gguf_path :: "string option"
  arg_models_dir :: string

definition default_model :: string where
  "default_model = ''gemma-3-4b-it-qat-abliterated''"

text \<open>Lines 372 to 381: the local file path that goes to the resolver.\<close>

definition discover_gguf :: "world \<Rightarrow> args \<Rightarrow> effect list \<times> string option" where
  "discover_gguf w a =
     (if \<not> truthy_opt (arg_gguf_path a) \<and> arg_model a = default_model then
        (case find_gguf_files w (arg_models_dir a) of
           (es, gguf_files) \<Rightarrow>
             (case find (sublist default_model) gguf_files of
                Some gguf_file \<Rightarrow>
                  (es @ [Print [Text ''Found matching GGUF file: '', Text gguf_file]],
                   Some gguf_file)
              | None \<Rightarrow> (es, arg_gguf_path a)))
      else ([], arg_gguf_path a))"

definition select_huggingface_model :: "args \<Rightarrow> string option" where
  "select_huggingface_model a =
     (if truthy_opt (arg_huggingface_model a) then arg_huggingface_model a
      else if arg_model a = ''gemma-3-1b-it-qat-abliterated''
      then Some ''mlabonne/gemma-3-1b-it-qat-abliterated''
      else None)"

definition one_shot :: "(chat_request \<Rightarrow> py_exn + pyval) \<Rightarrow> args \<Rightarrow> unit result" where
  "one_shot chat a =
     (if truthy_opt (arg_prompt a) then
        (case generate_text_ollama_lib chat (arg_model a) (the (arg_prompt a))
                (arg_max_length a) (arg_temperature a) of
           (es, Inl e) \<Rightarrow>
             (Print [Text ''Generating text for prompt: '', Text (the (arg_prompt a))] # es, Inl e)
         | (es, Inr response) \<Rightarrow>
             (Print [Text ''Generating text for prompt: '', Text (the (arg_prompt a))] # es @
              [if truthy response then Print [Text (''Generated text:'' @ [nl]), fmt response]
               else Print [Text ''Failed to generate text.''],
               Print [Text (nl # replicate 50 CHR ''='' @ [nl])]],
              Inr ()))
      else ([], Inr ()))"

definition main ::
  "world \<Rightarrow> (chat_request \<Rightarrow> py_exn + pyval)
     \<Rightarrow> (nat \<Rightarrow> chat_request \<Rightarrow> pyval list \<times> py_exn option)
     \<Rightarrow> (py_exn + string) list \<Rightarrow> args \<Rightarrow> unit result option" where
  "main w chat chats stdin a =
     (let client = \<lparr>base_url = arg_ollama_url a\<rparr> in
      case discover_gguf w a of
        (es1, gguf_path) \<Rightarrow>
          (case check_and_setup_model client w (arg_model a)
                  (select_huggingface_model a) gguf_path of
             (es2, Inl e) \<Rightarrow> Some (es1 @ es2, Inl e)
           | (es2, Inr ready) \<Rightarrow>
               if \<not> truthy ready then
                 Some (es1 @ es2 @ [Print [Text ''Failed to setup model. Exiting.''], Sys_exit 1],
                       Inl (Exn SystemExit ''1''))
               else
                 (case one_shot chat a of
                    (es3, Inl e) \<Rightarrow> Some (es1 @ es2 @ es3, Inl e)
                  | (es3, Inr u) \<Rightarrow>
                      map_option (\<lambda>(es4, r). (es1 @ es2 @ es3 @ es4, r))
                        (interactive_mode chats (arg_model a) stdin))))"

section \<open>Reading a trace\<close>

text \<open>
  The calls that change something outside the process: a POST to the daemon, a file
  opened for writing or written, a subprocess started.
\<close>

fun is_mutation :: "effect \<Rightarrow> bool" where
  "is_mutation (Http_post url body) = True"
| "is_mutation (File_open_w path) = True"
| "is_mutation (File_write path content) = True"
| "is_mutation (Run_process cmd) = True"
| "is_mutation _ = False"

definition mutations :: "effect list \<Rightarrow> effect list" where
  "mutations es = filter is_mutation es"

fun is_request :: "effect \<Rightarrow> bool" where
  "is_request (Http_get url t) = True"
| "is_request (Http_post url body) = True"
| "is_request _ = False"

definition requests :: "effect list \<Rightarrow> effect list" where
  "requests es = filter is_request es"

text \<open>The requests handed to the chat capability, and the texts written without a newline.\<close>

fun chat_calls :: "effect list \<Rightarrow> chat_request list" where
  "chat_calls [] = []"
| "chat_calls (Chat r # es) = r # chat_calls es"
| "chat_calls (e # es) = chat_calls es"

fun written :: "effect list \<Rightarrow> piece list list" where
  "written [] = []"
| "written (Write ps # es) = ps # written es"
| "written (e # es) = written es"

text \<open>
  A request that fails softly: the transport raises a \<open>RequestException\<close>, or the daemon
  answers with a status other than 200.
\<close>

fun soft_failure :: "py_exn + http_response \<Rightarrow> bool" where
  "soft_failure (Inl e) = is_RequestException e"
| "soft_failure (Inr response) = (status_code response \<noteq> 200)"

text \<open>A streamed line that is empty or a JSON object, and one that has a given field.\<close>

fun is_event :: "line \<Rightarrow> bool" where
  "is_event Blank = True"
| "is_event (Data (VDict kvs)) = True"
| "is_event _ = False"

fun has_field :: "string \<Rightarrow> line \<Rightarrow> bool" where
  "has_field k (Data d) = (py_contains k d = Inr True)"
| "has_field k _ = False"

subsection \<open>Sample worlds\<close>

definition json_response :: "int \<Rightarrow> pyval \<Rightarrow> http_response" where
  "json_response code doc =
     \<lparr>status_code = code, json_body = Inr doc, iter_lines = [], iter_end = None\<rparr>"

definition stream_response :: "int \<Rightarrow> line list \<Rightarrow> http_response" where
  "stream_response code ls =
     \<lparr>status_code = code, json_body = Inl (Exn ValueError ''not json''),
      iter_lines = ls, iter_end = None\<rparr>"

text \<open>
  A world given by the daemon's three answers (to the liveness probe, to the listing,
  to any POST); files exist and can be written, the import tool succeeds, and the
  models directory holds one matching file.
\<close>

definition sample_world ::
  "py_exn + http_response \<Rightarrow> py_exn + http_response \<Rightarrow> py_exn + http_response \<Rightarrow> world" where
  "sample_world probe listing posted =
     \<lparr>http_get = (\<lambda>url t. if t = Some 5 then probe else listing),
      http_post = (\<lambda>url body. posted),
      path_exists = (\<lambda>p. True),
      path_isfile = (\<lambda>p. True),
      os_walk = (\<lambda>d. [(d, [''sub''], [''notes.txt'']),
                       (path_join d ''sub'', [], [''gemma-3-4b-it-qat-abliterated.gguf''])]),
      open_w = (\<lambda>p. None),
      file_write = (\<lambda>p s. None),
      run_process = (\<lambda>cmd. None)\<rparr>"

definition local_client :: OllamaClient where
  "local_client = \<lparr>base_url = ''http://localhost:11434''\<rparr>"

definition listing_of :: "string list \<Rightarrow> py_exn + http_response" where
  "listing_of names =
     Inr (json_response 200 (VDict [(''models'', VList (map (\<lambda>n. VDict [(''name'', VStr n)]) names))]))"

definition completed_world :: world where
  "completed_world =
     sample_world (Inr (json_response 200 VNone)) (listing_of [])
       (Inr (stream_response 200
          [Data (VDict [(''status'', VStr ''pulling manifest'')]), Blank,
           Data (VDict [(''completed_at'', VStr ''2024-01-01T00:00:00Z'')])]))"

definition stalled_world :: world where
  "stalled_world =
     sample_world (Inr (json_response 200 VNone)) (listing_of [])
       (Inr (stream_response 200
          [Data (VDict [(''status'', VStr ''pulling manifest'')]), Blank,
           Data (VDict [(''status'', VStr ''success'')])]))"

definition failing_world :: world where
  "failing_world =
     sample_world (Inr (json_response 200 VNone)) (Inr (json_response 500 VNone))
       (Inl (Exn RequestException ''connection refused''))"

definition malformed_world :: world where
  "malformed_world =
     sample_world (Inr (json_response 200 VNone)) (listing_of [])
       (Inr (stream_response 200 [Undecodable]))"

definition listed_world :: world where
  "listed_world =
     sample_world (Inr (json_response 200 VNone)) (listing_of [''x''])
       (Inl (Exn RequestException ''connection refused''))"

text \<open>Sample behaviours of the chat capability.\<close>

definition reply :: "string \<Rightarrow> pyval" where
  "reply s = VDict [(''message'', VDict [(''role'', VStr ''assistant''), (''content'', VStr s)])]"

definition interrupted_chat :: "chat_request \<Rightarrow> py_exn + pyval" where
  "interrupted_chat req = Inl (Exn KeyboardInterrupt [])"

definition failing_chat :: "chat_request \<Rightarrow> py_exn + pyval" where
  "failing_chat req = Inl (Exn ResponseError ''model not found'')"

definition answering_chat :: "chat_request \<Rightarrow> py_exn + pyval" where
  "answering_chat req = Inr (reply ''Hello!'')"

definition streaming_chat :: "chat_request \<Rightarrow> pyval list \<times> py_exn option" where
  "streaming_chat req = ([reply ''Hel'', reply ''lo'', reply ''!''], None)"

definition streaming_chats :: "nat \<Rightarrow> chat_request \<Rightarrow> pyval list \<times> py_exn option" where
  "streaming_chats n = streaming_chat"

text \<open>The command line with every flag at its default.\<close>

definition default_args :: args where
  "default_args =
     \<lparr>arg_model = ''gemma-3-4b-it-qat-abliterated'',
      arg_prompt = None,
      arg_max_length = 512,
      arg_temperature = Finite 0.7,
      arg_ollama_url = ''http://localhost:11434'',
      arg_huggingface_model = None,
      arg_gguf_path = None,
      arg_models_dir = ''/Users/mattnevle/Models/huggingface''\<rparr>"

section \<open>Properties\<close>

subsection \<open>The streamed operations\<close>

lemma stream_events_prints: "e \<in> set (fst (stream_events msg ls ending)) \<Longrightarrow> \<exists>ps. e = Print ps"
  by (induction msg ls ending rule: stream_events.induct)
     (auto split: option.splits sum.splits bool.splits prod.splits)

lemma stream_events_True:
  "snd (stream_events msg ls ending) = Inr (VBool True) \<Longrightarrow> \<exists>l \<in> set ls. has_field ''completed_at'' l"
  by (induction msg ls ending rule: stream_events.induct)
     (auto split: option.splits sum.splits bool.splits prod.splits)

lemma getitem_of_contained:
  "k \<in> fst ` set kvs \<Longrightarrow> \<exists>v. py_getitem (VDict kvs) k = Inr v"
  by (cases "map_of kvs k") (auto simp: map_of_eq_None_iff)

lemma stream_events_None:
  "\<forall>l \<in> set ls. is_event l \<and> \<not> has_field ''completed_at'' l \<Longrightarrow>
   snd (stream_events msg ls None) = Inr VNone"
proof (induction msg ls "None :: py_exn option" rule: stream_events.induct)
  case (1 msg)
  then show ?case by simp
next
  case (2 msg ls)
  then show ?case by simp
next
  case (3 msg ls)
  then show ?case by simp
next
  case (4 msg d ls)
  then obtain kvs where d: "d = VDict kvs" by (cases d) auto
  show ?case
  proof (cases "''status'' \<in> fst ` set kvs")
    case True
    then obtain v where v: "py_getitem (VDict kvs) ''status'' = Inr v"
      using getitem_of_contained by blast
    with True 4 d show ?thesis by (auto split: prod.splits)
  next
    case False
    with 4 d show ?thesis by (auto split: prod.splits)
  qed
qed

lemma stream_events_True_pair:
  "stream_events msg ls ending = (es, Inr (VBool True)) \<Longrightarrow> \<exists>l \<in> set ls. has_field ''completed_at'' l"
  using stream_events_True [of msg ls ending] by simp

lemma streamed_post_True:
  "snd (streamed_post w url body msg failed) = Inr (VBool True) \<Longrightarrow>
   \<exists>resp. http_post w url body = Inr resp \<and> status_code resp = 200 \<and>
          (\<exists>l \<in> set (iter_lines resp). has_field ''completed_at'' l)"
  by (auto simp: streamed_post_def split: sum.splits if_splits prod.splits
           dest: stream_events_True_pair)

lemma streamed_post_None:
  "http_post w url body = Inr resp \<Longrightarrow> status_code resp = 200 \<Longrightarrow> iter_end resp = None \<Longrightarrow>
   \<forall>l \<in> set (iter_lines resp). is_event l \<and> \<not> has_field ''completed_at'' l \<Longrightarrow>
   snd (streamed_post w url body msg failed) = Inr VNone"
  using stream_events_None [of "iter_lines resp" msg]
  by (auto simp: streamed_post_def split: prod.splits)

lemma except_RequestException_snd:
  "snd (except_RequestException label v r) =
     (case snd r of Inl e \<Rightarrow> if is_RequestException e then Inr v else Inl e | Inr x \<Rightarrow> Inr x)"
  by (cases r; cases "snd r") auto

lemma snd_case_prod: "snd (case p of (es, r) \<Rightarrow> (f es, r)) = snd p"
  by (cases p) simp

text \<open>
  C10. In \<^verbatim>\<open>pull_model\<close> and \<^verbatim>\<open>create_custom_model\<close>, \<^verbatim>\<open>True\<close> is returned only after a
  status-200 answer whose stream holds an event with a \<^verbatim>\<open>completed_at\<close> field. When the
  status is 200 and the stream of events ends without such an event, the function runs
  off its end and returns \<^verbatim>\<open>None\<close>, which is neither \<^verbatim>\<open>True\<close> nor \<^verbatim>\<open>False\<close>.
\<close>

theorem completion_event_decides_success:
  "(snd (pull_model c w name) = Inr (VBool True) \<longrightarrow>
      (\<exists>resp. http_post w (base_url c @ ''/api/pull'') (VDict [(''name'', VStr name)]) = Inr resp \<and>
             status_code resp = 200 \<and>
             (\<exists>l \<in> set (iter_lines resp). has_field ''completed_at'' l)))
   \<and> (http_post w (base_url c @ ''/api/pull'') (VDict [(''name'', VStr name)]) = Inr resp \<and>
      status_code resp = 200 \<and> iter_end resp = None \<and>
      (\<forall>l \<in> set (iter_lines resp). is_event l \<and> \<not> has_field ''completed_at'' l) \<longrightarrow>
      snd (pull_model c w name) = Inr VNone)
   \<and> (snd (create_custom_model c w name hf) = Inr (VBool True) \<longrightarrow>
      (\<exists>resp. http_post w (base_url c @ ''/api/create'')
                (VDict [(''name'', VStr name), (''modelfile'', VStr (modelfile_content hf))]) = Inr resp \<and>
             status_code resp = 200 \<and>
             (\<exists>l \<in> set (iter_lines resp). has_field ''completed_at'' l)))
   \<and> (http_post w (base_url c @ ''/api/create'')
        (VDict [(''name'', VStr name), (''modelfile'', VStr (modelfile_content hf))]) = Inr resp' \<and>
      status_code resp' = 200 \<and> iter_end resp' = None \<and>
      (\<forall>l \<in> set (iter_lines resp'). is_event l \<and> \<not> has_field ''completed_at'' l) \<longrightarrow>
      snd (create_custom_model c w name hf) = Inr VNone)"
proof (intro conjI impI)
  assume "snd (pull_model c w name) = Inr (VBool True)"
  then have "snd (streamed_post w (base_url c @ ''/api/pull'') (VDict [(''name'', VStr name)])
                ''Model pulled successfully!'' ''Failed to pull model: '') = Inr (VBool True)"
    by (auto simp: pull_model_def except_RequestException_snd snd_case_prod split: sum.splits if_splits)
  then show "\<exists>resp. http_post w (base_url c @ ''/api/pull'') (VDict [(''name'', VStr name)]) = Inr resp \<and>
             status_code resp = 200 \<and> (\<exists>l \<in> set (iter_lines resp). has_field ''completed_at'' l)"
    by (rule streamed_post_True)
next
  assume "http_post w (base_url c @ ''/api/pull'') (VDict [(''name'', VStr name)]) = Inr resp \<and>
      status_code resp = 200 \<and> iter_end resp = None \<and>
      (\<forall>l \<in> set (iter_lines resp). is_event l \<and> \<not> has_field ''completed_at'' l)"
  then have "snd (streamed_post w (base_url c @ ''/api/pull'') (VDict [(''name'', VStr name)])
                ''Model pulled successfully!'' ''Failed to pull model: '') = Inr VNone"
    using streamed_post_None by blast
  then show "snd (pull_model c w name) = Inr VNone"
    by (simp add: pull_model_def except_RequestException_snd snd_case_prod)
next
  assume "snd (create_custom_model c w name hf) = Inr (VBool True)"
  then have "snd (streamed_post w (base_url c @ ''/api/create'')
                (VDict [(''name'', VStr name), (''modelfile'', VStr (modelfile_content hf))])
                ''Custom model created successfully!'' ''Failed to create model: '') = Inr (VBool True)"
    by (auto simp: create_custom_model_def except_RequestException_snd snd_case_prod
             split: sum.splits if_splits)
  then show "\<exists>resp. http_post w (base_url c @ ''/api/create'')
                (VDict [(''name'', VStr name), (''modelfile'', VStr (modelfile_content hf))]) = Inr resp \<and>
             status_code resp = 200 \<and> (\<exists>l \<in> set (iter_lines resp). has_field ''completed_at'' l)"
    by (rule streamed_post_True)
next
  assume "http_post w (base_url c @ ''/api/create'')
        (VDict [(''name'', VStr name), (''modelfile'', VStr (modelfile_content hf))]) = Inr resp' \<and>
      status_code resp' = 200 \<and> iter_end resp' = None \<and>
      (\<forall>l \<in> set (iter_lines resp'). is_event l \<and> \<not> has_field ''completed_at'' l)"
  then have "snd (streamed_post w (base_url c @ ''/api/create'')
                (VDict [(''name'', VStr name), (''modelfile'', VStr (modelfile_content hf))])
                ''Custom model created successfully!'' ''Failed to create model: '') = Inr VNone"
    using streamed_post_None by blast
  then show "snd (create_custom_model c w name hf) = Inr VNone"
    by (simp add: create_custom_model_def except_RequestException_snd snd_case_prod)
qed

theorem completion_event_decides_success_witness:
  "snd (pull_model local_client completed_world ''y'') = Inr (VBool True)
   \<and> (\<exists>l \<in> set [Data (VDict [(''status'', VStr ''pulling manifest'')]), Blank,
           Data (VDict [(''completed_at'', VStr ''2024-01-01T00:00:00Z'')])]. has_field ''completed_at'' l)
   \<and> snd (pull_model local_client stalled_world ''y'') = Inr VNone
   \<and> snd (create_custom_model local_client stalled_world ''y'' ''org/m'') = Inr VNone"
proof -
  let ?resp = "stream_response 200
          [Data (VDict [(''status'', VStr ''pulling manifest'')]), Blank,
           Data (VDict [(''status'', VStr ''success'')])]"
  have post: "http_post stalled_world url body = Inr ?resp" for url body
    by (simp add: stalled_world_def sample_world_def)
  have ok: "status_code ?resp = 200 \<and> iter_end ?resp = None \<and>
        (\<forall>l \<in> set (iter_lines ?resp). is_event l \<and> \<not> has_field ''completed_at'' l)"
    by (simp add: stream_response_def)
  have fin: "snd (pull_model local_client completed_world ''y'') = Inr (VBool True)"
    by (simp add: pull_model_def streamed_post_def completed_world_def sample_world_def
          stream_response_def local_client_def)
  show ?thesis
    using completion_event_decides_success
            [of local_client stalled_world "''y''" ?resp "''org/m''" ?resp]
          completion_event_decides_success
            [of local_client completed_world "''y''" ?resp "''org/m''" ?resp]
          post ok fin
    by simp
qed

text \<open>
  C5, as stated, fails: a streamed line that is not valid JSON makes \<^verbatim>\<open>json.loads\<close> raise
  a \<^verbatim>\<open>ValueError\<close>, which the handler for \<^verbatim>\<open>RequestException\<close> does not catch, so
  \<^verbatim>\<open>pull_model\<close> raises to its caller.
\<close>

theorem malformed_payload_raises:
  "snd (pull_model local_client malformed_world ''y'') = Inl (Exn ValueError ''json.loads'')"
  by (simp add: pull_model_def streamed_post_def malformed_world_def sample_world_def
        stream_response_def local_client_def)

text \<open>
  C5, amended. When the request fails softly (the transport raises a
  \<^verbatim>\<open>RequestException\<close>, or the status is not 200), each of \<^verbatim>\<open>list_models\<close>,
  \<^verbatim>\<open>pull_model\<close> and \<^verbatim>\<open>create_custom_model\<close> makes that one request, raises nothing and
  returns a falsy value: the empty list, or \<^verbatim>\<open>False\<close>. The transport failure is logged
  by all three; the status is logged by \<^verbatim>\<open>pull_model\<close> and \<^verbatim>\<open>create_custom_model\<close>,
  while \<^verbatim>\<open>list_models\<close> returns the empty list without a message.
\<close>

theorem soft_failures_yield_falsy:
  "(soft_failure (http_get w (base_url c @ ''/api/tags'') None) \<longrightarrow>
      list_models c w =
        (Http_get (base_url c @ ''/api/tags'') None #
           (case http_get w (base_url c @ ''/api/tags'') None of
              Inl e \<Rightarrow> [Print [Text ''Error listing models: '', Str_of_exn e]]
            | Inr r \<Rightarrow> []),
         Inr []))
   \<and> (soft_failure (http_post w (base_url c @ ''/api/pull'') (VDict [(''name'', VStr name)])) \<longrightarrow>
      pull_model c w name =
        ([Print [Text ''Pulling model: '', Text name],
          Print [Text ''This may take several minutes depending on your internet connection...''],
          Http_post (base_url c @ ''/api/pull'') (VDict [(''name'', VStr name)]),
          (case http_post w (base_url c @ ''/api/pull'') (VDict [(''name'', VStr name)]) of
             Inl e \<Rightarrow> Print [Text ''Error pulling model: '', Str_of_exn e]
           | Inr r \<Rightarrow> Print [Text ''Failed to pull model: '', Str_of (VInt (status_code r))])],
         Inr (VBool False)))
   \<and> (soft_failure (http_post w (base_url c @ ''/api/create'')
          (VDict [(''name'', VStr name), (''modelfile'', VStr (modelfile_content hf))])) \<longrightarrow>
      create_custom_model c w name hf =
        ([Print [Text ''Creating custom model '', Text [CHR 0x27], Text name,
                 Text [CHR 0x27], Text '' from Hugging Face: '', Text hf],
          Print [Text ''This may take several minutes...''],
          Http_post (base_url c @ ''/api/create'')
            (VDict [(''name'', VStr name), (''modelfile'', VStr (modelfile_content hf))]),
          (case http_post w (base_url c @ ''/api/create'')
                  (VDict [(''name'', VStr name), (''modelfile'', VStr (modelfile_content hf))]) of
             Inl e \<Rightarrow> Print [Text ''Error creating custom model: '', Str_of_exn e]
           | Inr r \<Rightarrow> Print [Text ''Failed to create model: '', Str_of (VInt (status_code r))])],
         Inr (VBool False)))"
proof (intro conjI impI)
  assume "soft_failure (http_get w (base_url c @ ''/api/tags'') None)"
  then show "list_models c w =
        (Http_get (base_url c @ ''/api/tags'') None #
           (case http_get w (base_url c @ ''/api/tags'') None of
              Inl e \<Rightarrow> [Print [Text ''Error listing models: '', Str_of_exn e]]
            | Inr r \<Rightarrow> []),
         Inr [])"
    by (cases "http_get w (base_url c @ ''/api/tags'') None")
       (simp_all add: list_models_def list_models_body_def)
next
  let ?r = "http_post w (base_url c @ ''/api/pull'') (VDict [(''name'', VStr name)])"
  assume "soft_failure ?r"
  then show "pull_model c w name =
        ([Print [Text ''Pulling model: '', Text name],
          Print [Text ''This may take several minutes depending on your internet connection...''],
          Http_post (base_url c @ ''/api/pull'') (VDict [(''name'', VStr name)]),
          (case ?r of
             Inl e \<Rightarrow> Print [Text ''Error pulling model: '', Str_of_exn e]
           | Inr r \<Rightarrow> Print [Text ''Failed to pull model: '', Str_of (VInt (status_code r))])],
         Inr (VBool False))"
    by (cases ?r) (simp_all add: pull_model_def streamed_post_def)
next
  let ?r = "http_post w (base_url c @ ''/api/create'')
          (VDict [(''name'', VStr name), (''modelfile'', VStr (modelfile_content hf))])"
  assume "soft_failure ?r"
  then show "create_custom_model c w name hf =
        ([Print [Text ''Creating custom model '', Text [CHR 0x27], Text name,
                 Text [CHR 0x27], Text '' from Hugging Face: '', Text hf],
          Print [Text ''This may take several minutes...''],
          Http_post (base_url c @ ''/api/create'')
            (VDict [(''name'', VStr name), (''modelfile'', VStr (modelfile_content hf))]),
          (case ?r of
             Inl e \<Rightarrow> Print [Text ''Error creating custom model: '', Str_of_exn e]
           | Inr r \<Rightarrow> Print [Text ''Failed to create model: '', Str_of (VInt (status_code r))])],
         Inr (VBool False))"
    by (cases ?r) (simp_all add: create_custom_model_def streamed_post_def)
qed

theorem soft_failures_yield_falsy_witness:
  "soft_failure (http_get failing_world (base_url local_client @ ''/api/tags'') None)
   \<and> soft_failure (http_post failing_world (base_url local_client @ ''/api/pull'')
                     (VDict [(''name'', VStr ''y'')]))
   \<and> list_models local_client failing_world =
       ([Http_get ''http://localhost:11434/api/tags'' None], Inr [])
   \<and> pull_model local_client failing_world ''y'' =
       ([Print [Text ''Pulling model: '', Text ''y''],
         Print [Text ''This may take several minutes depending on your internet connection...''],
         Http_post ''http://localhost:11434/api/pull'' (VDict [(''name'', VStr ''y'')]),
         Print [Text ''Error pulling model: '',
                Str_of_exn (Exn RequestException ''connection refused'')]],
        Inr (VBool False))"
proof -
  have get: "http_get failing_world url None = Inr (json_response 500 VNone)" for url
    by (simp add: failing_world_def sample_world_def)
  have post: "http_post failing_world url body = Inl (Exn RequestException ''connection refused'')"
    for url body
    by (simp add: failing_world_def sample_world_def)
  show ?thesis
    using soft_failures_yield_falsy [of failing_world local_client "''y''" "''org/m''"]
    by (simp add: get post json_response_def local_client_def)
qed

subsection \<open>The setup resolver\<close>

lemma mutations_append: "mutations (a @ b) = mutations a @ mutations b"
  by (simp add: mutations_def)

lemma mutations_Cons: "mutations (e # es) = (if is_mutation e then e # mutations es else mutations es)"
  by (simp add: mutations_def)

lemma mutations_Nil: "mutations [] = []"
  by (simp add: mutations_def)

lemma mutations_prints: "\<forall>e \<in> set es. \<exists>ps. e = Print ps \<Longrightarrow> mutations es = []"
  by (induction es) (auto simp: mutations_def)

lemma mutations_stream_events: "mutations (fst (stream_events msg ls ending)) = []"
  by (rule mutations_prints) (blast dest: stream_events_prints)

lemma fst_except_RequestException:
  "fst (except_RequestException label v r) =
     fst r @ (case snd r of
                Inl e \<Rightarrow> if is_RequestException e then [Print [Text label, Str_of_exn e]] else []
              | Inr x \<Rightarrow> [])"
  by (cases r; cases "snd r") auto

lemma mutations_except_RequestException:
  "mutations (fst (except_RequestException label v r)) = mutations (fst r)"
  by (simp add: fst_except_RequestException mutations_append mutations_Cons mutations_Nil
           split: sum.splits)

lemma mutations_check_ollama_running: "mutations (fst (check_ollama_running c w)) = []"
  by (simp add: check_ollama_running_def Let_def mutations_Cons mutations_Nil split: sum.splits)

lemma mutations_list_models: "mutations (fst (list_models c w)) = []"
  by (simp add: list_models_def Let_def mutations_except_RequestException mutations_Cons
        mutations_Nil split: sum.splits)

lemma mutations_streamed_post:
  "mutations (fst (streamed_post w url body msg failed)) = [Http_post url body]"
  by (simp add: streamed_post_def mutations_Cons mutations_Nil mutations_stream_events
        case_prod_beta split: sum.splits)

lemma mutations_pull_model:
  "mutations (fst (pull_model c w name)) =
     [Http_post (base_url c @ ''/api/pull'') (VDict [(''name'', VStr name)])]"
  using mutations_streamed_post [of w "base_url c @ ''/api/pull''" "VDict [(''name'', VStr name)]"
          "''Model pulled successfully!''" "''Failed to pull model: ''"]
  by (simp add: pull_model_def mutations_except_RequestException mutations_Cons case_prod_beta)

lemma mutations_create_custom_model:
  "mutations (fst (create_custom_model c w name hf)) =
     [Http_post (base_url c @ ''/api/create'')
        (VDict [(''name'', VStr name), (''modelfile'', VStr (modelfile_content hf))])]"
  using mutations_streamed_post [of w "base_url c @ ''/api/create''"
          "VDict [(''name'', VStr name), (''modelfile'', VStr (modelfile_content hf))]"
          "''Custom model created successfully!''" "''Failed to create model: ''"]
  by (simp add: create_custom_model_def mutations_except_RequestException mutations_Cons
        case_prod_beta)

lemma except_register_no_post:
  "\<forall>e \<in> set (fst r). \<forall>url body. e \<noteq> Http_post url body \<Longrightarrow>
   \<forall>e \<in> set (fst (except_register r)). \<forall>url body. e \<noteq> Http_post url body"
  by (induction r rule: except_register.induct) auto

lemma register_no_post:
  "\<forall>e \<in> set (fst (register_gguf_model w folder file name)). \<forall>url body. e \<noteq> Http_post url body"
  unfolding register_gguf_model_def Let_def
  by (auto intro!: except_register_no_post split: option.splits)

lemma requests_check_ollama_running:
  "requests (fst (check_ollama_running c w)) = [Http_get (base_url c @ ''/api/tags'') (Some 5)]"
  by (simp add: check_ollama_running_def Let_def requests_def split: sum.splits)

lemma requests_list_models:
  "requests (fst (list_models c w)) = [Http_get (base_url c @ ''/api/tags'') None]"
  by (simp add: list_models_def Let_def requests_def fst_except_RequestException
           split: sum.splits)

lemma resolver_listed:
  assumes "check_ollama_running c w = (es1, Inr True)"
    and "list_models c w = (es2, Inr available)"
    and "VStr name \<in> set available"
  shows "check_and_setup_model c w name hf gp =
     (es1 @ es2 @ [Print [Text ''Available models: '', Str_of (VList available)],
                   Print [Text ''Model '', Text name, Text '' is already available!'']],
      Inr (VBool True))"
  using assms by (simp add: check_and_setup_model_def)

lemma resolver_unlisted:
  assumes "check_ollama_running c w = (es1, Inr True)"
    and "list_models c w = (es2, Inr available)"
    and "VStr name \<notin> set available"
  shows "check_and_setup_model c w name hf gp =
     (let es = es1 @ es2 @ [Print [Text ''Available models: '', Str_of (VList available)]] in
      if truthy_opt gp then
        (es @ Print [Text ''Model '', Text name, Text '' not found. Registering GGUF model...'']
            # fst (register_gguf_model w (dirname (the gp)) (basename (the gp)) name),
         snd (register_gguf_model w (dirname (the gp)) (basename (the gp)) name))
      else if truthy_opt hf then
        (es @ Print [Text ''Model '', Text name,
                     Text '' not found. Creating custom model from Hugging Face...'']
            # fst (create_custom_model c w name (the hf)),
         snd (create_custom_model c w name (the hf)))
      else
        (es @ Print [Text ''Model '', Text name,
                     Text '' not found. Attempting to pull from Ollama library...'']
            # fst (pull_model c w name),
         snd (pull_model c w name)))"
  using assms by (simp add: check_and_setup_model_def Let_def case_prod_beta)

lemma sample_world_running:
  "snd (check_ollama_running local_client (sample_world (Inr (json_response 200 d)) l p)) = Inr True"
  by (simp add: check_ollama_running_def sample_world_def json_response_def)

lemma sample_world_listing:
  "snd (list_models local_client (sample_world r (listing_of names) p)) = Inr (map VStr names)"
proof -
  have "names_of (map (\<lambda>n. VDict [(''name'', VStr n)]) names) = Inr (map VStr names)"
    by (induction names) simp_all
  then show ?thesis
    by (simp add: list_models_def list_models_body_def sample_world_def listing_of_def
          json_response_def)
qed

text \<open>
  C3. When the daemon is reachable and the requested name is in its listing, the
  resolver returns \<^verbatim>\<open>True\<close> and changes nothing: no POST (neither pull nor create), no
  file written and no subprocess. Its only requests are the liveness probe and the
  listing.
\<close>

theorem listed_model_no_mutation:
  "snd (check_ollama_running c w) = Inr True \<and> snd (list_models c w) = Inr available \<and>
   VStr name \<in> set available \<longrightarrow>
     snd (check_and_setup_model c w name hf gp) = Inr (VBool True) \<and>
     mutations (fst (check_and_setup_model c w name hf gp)) = [] \<and>
     requests (fst (check_and_setup_model c w name hf gp)) =
       [Http_get (base_url c @ ''/api/tags'') (Some 5), Http_get (base_url c @ ''/api/tags'') None]"
proof (intro impI, elim conjE)
  assume run: "snd (check_ollama_running c w) = Inr True"
    and lst: "snd (list_models c w) = Inr available"
    and mem: "VStr name \<in> set available"
  obtain es1 where 1: "check_ollama_running c w = (es1, Inr True)"
    using run by (cases "check_ollama_running c w") simp
  obtain es2 where 2: "list_models c w = (es2, Inr available)"
    using lst by (cases "list_models c w") simp
  have m1: "mutations es1 = []" using mutations_check_ollama_running [of c w] 1 by simp
  have m2: "mutations es2 = []" using mutations_list_models [of c w] 2 by simp
  have r1: "requests es1 = [Http_get (base_url c @ ''/api/tags'') (Some 5)]"
    using requests_check_ollama_running [of c w] 1 by simp
  have r2: "requests es2 = [Http_get (base_url c @ ''/api/tags'') None]"
    using requests_list_models [of c w] 2 by simp
  have eq: "check_and_setup_model c w name hf gp =
     (es1 @ es2 @ [Print [Text ''Available models: '', Str_of (VList available)],
                   Print [Text ''Model '', Text name, Text '' is already available!'']],
      Inr (VBool True))"
    using 1 2 mem by (rule resolver_listed)
  have "mutations (fst (check_and_setup_model c w name hf gp)) = []"
    using m1 m2 by (simp add: eq mutations_append mutations_Cons mutations_Nil)
  moreover have "requests (fst (check_and_setup_model c w name hf gp)) =
       [Http_get (base_url c @ ''/api/tags'') (Some 5), Http_get (base_url c @ ''/api/tags'') None]"
    using r1 r2 by (simp add: eq requests_def)
  ultimately show "snd (check_and_setup_model c w name hf gp) = Inr (VBool True) \<and>
     mutations (fst (check_and_setup_model c w name hf gp)) = [] \<and>
     requests (fst (check_and_setup_model c w name hf gp)) =
       [Http_get (base_url c @ ''/api/tags'') (Some 5), Http_get (base_url c @ ''/api/tags'') None]"
    by (simp add: eq)
qed

theorem listed_model_no_mutation_witness:
  "snd (check_ollama_running local_client listed_world) = Inr True
   \<and> snd (list_models local_client listed_world) = Inr [VStr ''x'']
   \<and> snd (check_and_setup_model local_client listed_world ''x'' None None) = Inr (VBool True)
   \<and> mutations (fst (check_and_setup_model local_client listed_world ''x'' None None)) = []
   \<and> requests (fst (check_and_setup_model local_client listed_world ''x'' None None)) =
       [Http_get ''http://localhost:11434/api/tags'' (Some 5),
        Http_get ''http://localhost:11434/api/tags'' None]"
proof -
  have run: "snd (check_ollama_running local_client listed_world) = Inr True"
    unfolding listed_world_def by (rule sample_world_running)
  have lst: "snd (list_models local_client listed_world) = Inr [VStr ''x'']"
    using sample_world_listing [of _ "[''x'']"] by (simp add: listed_world_def)
  show ?thesis
    using listed_model_no_mutation
            [where c = local_client and w = listed_world and available = "[VStr ''x'']"
               and name = "''x''" and hf = None and gp = None]
          run lst
    by (simp add: local_client_def)
qed

text \<open>
  C1. When the daemon is reachable and the requested name is not in its listing, the
  first of three paths that applies is taken, and only that one. With a local file path
  (not empty), the result and the changes made are those of the local registration, with
  no POST at all, whether or not a remote reference is also given. Otherwise, with a
  remote reference (not empty), they are those of the custom-model creation: one POST to
  \<^verbatim>\<open>/api/create\<close>. Otherwise one POST to \<^verbatim>\<open>/api/pull\<close> for the requested name is made,
  which covers the case of an empty listing with neither argument.
\<close>

theorem resolver_priority_order:
  "snd (check_ollama_running c w) = Inr True \<and> snd (list_models c w) = Inr available \<and>
   VStr name \<notin> set available \<longrightarrow>
     (truthy_opt gp \<longrightarrow>
        snd (check_and_setup_model c w name hf gp) =
          snd (register_gguf_model w (dirname (the gp)) (basename (the gp)) name) \<and>
        mutations (fst (check_and_setup_model c w name hf gp)) =
          mutations (fst (register_gguf_model w (dirname (the gp)) (basename (the gp)) name)) \<and>
        (\<forall>url body. Http_post url body \<notin> set (fst (check_and_setup_model c w name hf gp))))
     \<and> (\<not> truthy_opt gp \<and> truthy_opt hf \<longrightarrow>
        snd (check_and_setup_model c w name hf gp) = snd (create_custom_model c w name (the hf)) \<and>
        mutations (fst (check_and_setup_model c w name hf gp)) =
          [Http_post (base_url c @ ''/api/create'')
             (VDict [(''name'', VStr name), (''modelfile'', VStr (modelfile_content (the hf)))])])
     \<and> (\<not> truthy_opt gp \<and> \<not> truthy_opt hf \<longrightarrow>
        snd (check_and_setup_model c w name hf gp) = snd (pull_model c w name) \<and>
        mutations (fst (check_and_setup_model c w name hf gp)) =
          [Http_post (base_url c @ ''/api/pull'') (VDict [(''name'', VStr name)])])"
proof (intro impI, elim conjE)
  assume run: "snd (check_ollama_running c w) = Inr True"
    and lst: "snd (list_models c w) = Inr available"
    and mem: "VStr name \<notin> set available"
  obtain es1 where 1: "check_ollama_running c w = (es1, Inr True)"
    using run by (cases "check_ollama_running c w") simp
  obtain es2 where 2: "list_models c w = (es2, Inr available)"
    using lst by (cases "list_models c w") simp
  have m1: "mutations es1 = []" using mutations_check_ollama_running [of c w] 1 by simp
  have m2: "mutations es2 = []" using mutations_list_models [of c w] 2 by simp
  have p1: "\<forall>e \<in> set es1. \<forall>url body. e \<noteq> Http_post url body"
    using m1 by (auto simp: mutations_def filter_empty_conv)
  have p2: "\<forall>e \<in> set es2. \<forall>url body. e \<noteq> Http_post url body"
    using m2 by (auto simp: mutations_def filter_empty_conv)
  note eq = resolver_unlisted [OF 1 2 mem, of hf gp]
  have local: "truthy_opt gp \<longrightarrow>
        snd (check_and_setup_model c w name hf gp) =
          snd (register_gguf_model w (dirname (the gp)) (basename (the gp)) name) \<and>
        mutations (fst (check_and_setup_model c w name hf gp)) =
          mutations (fst (register_gguf_model w (dirname (the gp)) (basename (the gp)) name)) \<and>
        (\<forall>url body. Http_post url body \<notin> set (fst (check_and_setup_model c w name hf gp)))"
    using m1 m2 p1 p2 register_no_post [of w "dirname (the gp)" "basename (the gp)" name]
    by (auto simp: eq Let_def mutations_append mutations_Cons mutations_Nil)
  have remote: "\<not> truthy_opt gp \<and> truthy_opt hf \<longrightarrow>
        snd (check_and_setup_model c w name hf gp) = snd (create_custom_model c w name (the hf)) \<and>
        mutations (fst (check_and_setup_model c w name hf gp)) =
          [Http_post (base_url c @ ''/api/create'')
             (VDict [(''name'', VStr name), (''modelfile'', VStr (modelfile_content (the hf)))])]"
    using m1 m2
    by (simp add: eq Let_def mutations_append mutations_Cons mutations_Nil
          mutations_create_custom_model)
  have pull: "\<not> truthy_opt gp \<and> \<not> truthy_opt hf \<longrightarrow>
        snd (check_and_setup_model c w name hf gp) = snd (pull_model c w name) \<and>
        mutations (fst (check_and_setup_model c w name hf gp)) =
          [Http_post (base_url c @ ''/api/pull'') (VDict [(''name'', VStr name)])]"
    using m1 m2
    by (simp add: eq Let_def mutations_append mutations_Cons mutations_Nil mutations_pull_model)
  from local remote pull show "(truthy_opt gp \<longrightarrow>
        snd (check_and_setup_model c w name hf gp) =
          snd (register_gguf_model w (dirname (the gp)) (basename (the gp)) name) \<and>
        mutations (fst (check_and_setup_model c w name hf gp)) =
          mutations (fst (register_gguf_model w (dirname (the gp)) (basename (the gp)) name)) \<and>
        (\<forall>url body. Http_post url body \<notin> set (fst (check_and_setup_model c w name hf gp))))
     \<and> (\<not> truthy_opt gp \<and> truthy_opt hf \<longrightarrow>
        snd (check_and_setup_model c w name hf gp) = snd (create_custom_model c w name (the hf)) \<and>
        mutations (fst (check_and_setup_model c w name hf gp)) =
          [Http_post (base_url c @ ''/api/create'')
             (VDict [(''name'', VStr name), (''modelfile'', VStr (modelfile_content (the hf)))])])
     \<and> (\<not> truthy_opt gp \<and> \<not> truthy_opt hf \<longrightarrow>
        snd (check_and_setup_model c w name hf gp) = snd (pull_model c w name) \<and>
        mutations (fst (check_and_setup_model c w name hf gp)) =
          [Http_post (base_url c @ ''/api/pull'') (VDict [(''name'', VStr name)])])"
    by blast
qed

theorem resolver_priority_order_witness:
  "snd (check_ollama_running local_client stalled_world) = Inr True
   \<and> snd (list_models local_client stalled_world) = Inr []
   \<and> mutations (fst (check_and_setup_model local_client stalled_world ''y'' None None)) =
       [Http_post ''http://localhost:11434/api/pull'' (VDict [(''name'', VStr ''y'')])]
   \<and> mutations (fst (check_and_setup_model local_client stalled_world ''y'' (Some ''org/m'') None)) =
       [Http_post ''http://localhost:11434/api/create''
          (VDict [(''name'', VStr ''y''), (''modelfile'', VStr (modelfile_content ''org/m''))])]
   \<and> mutations (fst (check_and_setup_model local_client stalled_world ''y'' (Some ''org/m'')
                       (Some ''/models/deep/y.gguf''))) =
       mutations (fst (register_gguf_model stalled_world ''/models/deep'' ''y.gguf'' ''y''))"
proof -
  have run: "snd (check_ollama_running local_client stalled_world) = Inr True"
    unfolding stalled_world_def by (rule sample_world_running)
  have lst: "snd (list_models local_client stalled_world) = Inr []"
    using sample_world_listing [of _ "[]"] by (simp add: stalled_world_def)
  have dir: "dirname ''/models/deep/y.gguf'' = ''/models/deep''"
    and base: "basename ''/models/deep/y.gguf'' = ''y.gguf''"
    by (simp_all add: dirname_def basename_def)
  show ?thesis
    using resolver_priority_order
            [where c = local_client and w = stalled_world and available = "[]"
               and name = "''y''" and hf = None and gp = None]
          resolver_priority_order
            [where c = local_client and w = stalled_world and available = "[]"
               and name = "''y''" and hf = "Some ''org/m''" and gp = None]
          resolver_priority_order
            [where c = local_client and w = stalled_world and available = "[]"
               and name = "''y''" and hf = "Some ''org/m''" and gp = "Some ''/models/deep/y.gguf''"]
          run lst
    by (simp add: local_client_def dir base)
qed

subsection \<open>Generation\<close>

lemma chat_calls_append: "chat_calls (a @ b) = chat_calls a @ chat_calls b"
  by (induction a rule: chat_calls.induct) simp_all

lemma written_append: "written (a @ b) = written a @ written b"
  by (induction a rule: written.induct) simp_all

lemma fst_except_generate:
  "fst (except_generate r) =
     fst r @ (case snd r of
                Inl e \<Rightarrow> if is_Exception e
                  then [Print [Text ''Error generating text with ollama library: '', Str_of_exn e]]
                  else []
              | Inr v \<Rightarrow> [])"
  by (induction r rule: except_generate.induct) simp_all

lemma snd_except_generate:
  "snd (except_generate r) =
     (case snd r of Inl e \<Rightarrow> if is_Exception e then Inr VNone else Inl e | Inr v \<Rightarrow> Inr v)"
  by (induction r rule: except_generate.induct) simp_all

lemma consume_chunks_writes:
  "\<forall>e \<in> set (fst (consume_chunks chunks ending acc)). \<exists>ps. e = Write ps"
  by (induction chunks ending acc rule: consume_chunks.induct)
     (auto simp: case_prod_beta split: option.splits sum.splits pyval.splits)

lemma chat_calls_writes: "\<forall>e \<in> set es. \<exists>ps. e = Write ps \<Longrightarrow> chat_calls es = []"
  by (induction es) auto

lemma chat_calls_consume_chunks: "chat_calls (fst (consume_chunks chunks ending acc)) = []"
  by (rule chat_calls_writes) (rule consume_chunks_writes)

lemma clamp_temperature:
  "\<exists>r. 1 / 10 \<le> r \<and> r \<le> 2 \<and> (\<forall>x. t = Finite x \<longrightarrow> r = max (1 / 10) (min 2 x)) \<and>
       py_max (Finite 0.1) (py_min (Finite 2.0) t) = Finite r"
proof (cases t)
  case (Finite x)
  then show ?thesis
    by (intro exI [of _ "max (1 / 10) (min 2 x)"]) (auto simp: py_max_def py_min_def)
next
  case PosInf
  then show ?thesis by (intro exI [of _ 2]) (simp add: py_max_def py_min_def)
next
  case NegInf
  then show ?thesis by (intro exI [of _ "1 / 10"]) (simp add: py_max_def py_min_def)
next
  case NaN
  then show ?thesis by (intro exI [of _ 2]) (simp add: py_max_def py_min_def)
qed

lemma chat_calls_single_shot:
  "chat_calls (fst (generate_text_ollama_lib chat m p ml t)) =
     [\<lparr>model = m, messages = user_messages p, options = chat_options ml t, stream = False\<rparr>]"
  by (simp add: generate_text_ollama_lib_def Let_def fst_except_generate chat_calls_append
           split: sum.splits)

lemma chat_calls_streaming:
  "chat_calls (fst (generate_text_streaming_ollama_lib chat_stream m p ml t)) =
     [\<lparr>model = m, messages = user_messages p, options = chat_options ml t, stream = True\<rparr>]"
proof -
  let ?req = "\<lparr>model = m, messages = user_messages p, options = chat_options ml t, stream = True\<rparr>"
  obtain chunks ending where s: "chat_stream ?req = (chunks, ending)"
    by (cases "chat_stream ?req")
  obtain es r where c: "consume_chunks chunks ending [] = (es, r)"
    by (cases "consume_chunks chunks ending []")
  have "chat_calls es = []"
    using chat_calls_consume_chunks [of chunks ending "[]"] c by simp
  then show ?thesis
    by (cases r)
       (simp_all add: generate_text_streaming_ollama_lib_def Let_def s c fst_except_generate
          chat_calls_append)
qed

text \<open>
  C2. Both generation functions make exactly one chat call, whatever the temperature and
  the maximum length are; nothing is rejected. The temperature sent lies in the closed
  interval from 0.1 to 2.0 (also for an infinite or undefined input) and is the input
  clamped into it when the input is a number; the \<^verbatim>\<open>num_predict\<close> sent is the smaller of
  the maximum length and 2048.
\<close>

theorem generation_options_clamped:
  "\<exists>r. 1 / 10 \<le> r \<and> r \<le> 2 \<and> (\<forall>x. temperature = Finite x \<longrightarrow> r = max (1 / 10) (min 2 x)) \<and>
       chat_calls (fst (generate_text_ollama_lib chat m p max_length temperature)) =
         [\<lparr>model = m, messages = user_messages p,
           options = VDict [(''temperature'', VFloat (Finite r)),
                            (''num_predict'', VInt (min max_length 2048)),
                            (''top_p'', VFloat (Finite 0.9)),
                            (''top_k'', VInt 50),
                            (''repeat_penalty'', VFloat (Finite 1.1))],
           stream = False\<rparr>] \<and>
       chat_calls (fst (generate_text_streaming_ollama_lib chat_stream m p max_length temperature)) =
         [\<lparr>model = m, messages = user_messages p,
           options = VDict [(''temperature'', VFloat (Finite r)),
                            (''num_predict'', VInt (min max_length 2048)),
                            (''top_p'', VFloat (Finite 0.9)),
                            (''top_k'', VInt 50),
                            (''repeat_penalty'', VFloat (Finite 1.1))],
           stream = True\<rparr>]"
proof -
  obtain r where r: "1 / 10 \<le> r" "r \<le> 2" "\<forall>x. temperature = Finite x \<longrightarrow> r = max (1 / 10) (min 2 x)"
    and c: "py_max (Finite 0.1) (py_min (Finite 2.0) temperature) = Finite r"
    using clamp_temperature [of temperature] by blast
  have o: "chat_options max_length temperature =
      VDict [(''temperature'', VFloat (Finite r)),
             (''num_predict'', VInt (min max_length 2048)),
             (''top_p'', VFloat (Finite 0.9)),
             (''top_k'', VInt 50),
             (''repeat_penalty'', VFloat (Finite 1.1))]"
    using c by (simp add: chat_options_def)
  show ?thesis
    using r by (intro exI [of _ r]) (simp add: chat_calls_single_shot chat_calls_streaming o)
qed

theorem generation_options_clamped_witness:
  "chat_calls (fst (generate_text_ollama_lib failing_chat ''m'' ''hi'' 4096 (Finite 5))) =
     [\<lparr>model = ''m'', messages = user_messages ''hi'',
       options = VDict [(''temperature'', VFloat (Finite 2)),
                        (''num_predict'', VInt 2048),
                        (''top_p'', VFloat (Finite 0.9)),
                        (''top_k'', VInt 50),
                        (''repeat_penalty'', VFloat (Finite 1.1))],
       stream = False\<rparr>]
   \<and> chat_calls (fst (generate_text_streaming_ollama_lib streaming_chat ''m'' ''hi'' 4096 (Finite 5))) =
     [\<lparr>model = ''m'', messages = user_messages ''hi'',
       options = VDict [(''temperature'', VFloat (Finite 2)),
                        (''num_predict'', VInt 2048),
                        (''top_p'', VFloat (Finite 0.9)),
                        (''top_k'', VInt 50),
                        (''repeat_penalty'', VFloat (Finite 1.1))],
       stream = True\<rparr>]"
  using generation_options_clamped
          [of "Finite 5" failing_chat "''m''" "''hi''" 4096 streaming_chat]
  by auto

lemma consume_chunks_fragments:
  "map message_content chunks = map (\<lambda>s. Inr (VStr s)) fragments \<Longrightarrow>
   consume_chunks chunks None acc =
     (map (\<lambda>s. Write [Text s]) fragments, Inr (acc @ concat fragments))"
proof (induction chunks arbitrary: fragments acc)
  case Nil
  then show ?case by simp
next
  case (Cons chunk chunks)
  then obtain s rest where f: "fragments = s # rest" by (cases fragments) auto
  with Cons.prems have "message_content chunk = Inr (VStr s)"
    and "map message_content chunks = map (\<lambda>s. Inr (VStr s)) rest"
    by simp_all
  with Cons.IH [of rest "acc @ s"] f show ?case by simp
qed

lemma consume_chunks_returns:
  "consume_chunks chunks ending acc = (es, Inr full) \<Longrightarrow>
   ending = None \<and>
   (\<exists>fragments. map message_content chunks = map (\<lambda>s. Inr (VStr s)) fragments \<and>
       es = map (\<lambda>s. Write [Text s]) fragments \<and> full = acc @ concat fragments)"
proof (induction chunks arbitrary: acc es)
  case Nil
  then show ?case by (cases ending) auto
next
  case (Cons chunk chunks)
  from Cons.prems obtain s where s: "message_content chunk = Inr (VStr s)"
    by (auto split: sum.splits pyval.splits prod.splits)
  obtain es' r where c: "consume_chunks chunks ending (acc @ s) = (es', r)"
    by (cases "consume_chunks chunks ending (acc @ s)")
  with Cons.prems s have r: "r = Inr full" and es: "es = Write [Text s] # es'"
    by simp_all
  from Cons.IH [of "acc @ s" es'] c r obtain fragments where
    "ending = None" "map message_content chunks = map (\<lambda>s. Inr (VStr s)) fragments"
    "es' = map (\<lambda>s. Write [Text s]) fragments" "full = (acc @ s) @ concat fragments"
    by auto
  with s es show ?case
    by (intro conjI exI [of _ "s # fragments"]) simp_all
qed

lemma written_fragments: "written (map (\<lambda>s. Write [Text s]) fragments) = map (\<lambda>s. [Text s]) fragments"
  by (induction fragments) simp_all

text \<open>
  C4. When the streamed reply is consumed without an exception (the iteration ends
  normally and every chunk carries a text), streaming generation writes
  \<^verbatim>\<open>Response: \<close>, then each fragment in arrival order, then a line end, and returns the
  concatenation of those fragments. Whenever it returns a text at all, that text is the
  concatenation, in order, of the fragments it wrote after \<^verbatim>\<open>Response: \<close>.
\<close>

theorem streaming_returns_concatenation:
  "(chat_stream \<lparr>model = m, messages = user_messages p, options = chat_options ml t,
                 stream = True\<rparr> = (chunks, None) \<and>
    map message_content chunks = map (\<lambda>s. Inr (VStr s)) fragments \<longrightarrow>
      generate_text_streaming_ollama_lib chat_stream m p ml t =
        (Write [Text ''Response: ''] #
         Chat \<lparr>model = m, messages = user_messages p, options = chat_options ml t, stream = True\<rparr> #
         map (\<lambda>s. Write [Text s]) fragments @ [Print []],
         Inr (VStr (concat fragments))))
   \<and> (snd (generate_text_streaming_ollama_lib chat_stream m p ml t) = Inr (VStr full) \<longrightarrow>
      (\<exists>printed. written (fst (generate_text_streaming_ollama_lib chat_stream m p ml t)) =
                   [Text ''Response: ''] # map (\<lambda>s. [Text s]) printed \<and>
                 full = concat printed))"
proof (intro conjI impI)
  let ?req = "\<lparr>model = m, messages = user_messages p, options = chat_options ml t, stream = True\<rparr>"
  assume "chat_stream ?req = (chunks, None) \<and>
    map message_content chunks = map (\<lambda>s. Inr (VStr s)) fragments"
  then show "generate_text_streaming_ollama_lib chat_stream m p ml t =
        (Write [Text ''Response: ''] # Chat ?req #
         map (\<lambda>s. Write [Text s]) fragments @ [Print []],
         Inr (VStr (concat fragments)))"
    by (simp add: generate_text_streaming_ollama_lib_def Let_def
          consume_chunks_fragments [of chunks fragments "[]"])
next
  let ?req = "\<lparr>model = m, messages = user_messages p, options = chat_options ml t, stream = True\<rparr>"
  assume ret: "snd (generate_text_streaming_ollama_lib chat_stream m p ml t) = Inr (VStr full)"
  obtain chunks ending where s: "chat_stream ?req = (chunks, ending)"
    by (cases "chat_stream ?req")
  obtain es r where c: "consume_chunks chunks ending [] = (es, r)"
    by (cases "consume_chunks chunks ending []")
  from ret have r: "r = Inr full"
    by (cases r)
       (simp_all add: generate_text_streaming_ollama_lib_def Let_def s c snd_except_generate
          split: if_splits)
  from consume_chunks_returns [of chunks ending "[]" es full] c r
  obtain printed where "es = map (\<lambda>s. Write [Text s]) printed" "full = concat printed"
    by auto
  then have "written (fst (generate_text_streaming_ollama_lib chat_stream m p ml t)) =
                   [Text ''Response: ''] # map (\<lambda>s. [Text s]) printed \<and> full = concat printed"
    by (simp add: generate_text_streaming_ollama_lib_def Let_def s c r written_append
          written_fragments)
  then show "\<exists>printed. written (fst (generate_text_streaming_ollama_lib chat_stream m p ml t)) =
                   [Text ''Response: ''] # map (\<lambda>s. [Text s]) printed \<and> full = concat printed"
    by blast
qed

theorem streaming_returns_concatenation_witness:
  "generate_text_streaming_ollama_lib streaming_chat ''m'' ''hi'' 512 (Finite 0.7) =
     (Write [Text ''Response: ''] #
      Chat \<lparr>model = ''m'', messages = user_messages ''hi'',
            options = chat_options 512 (Finite 0.7), stream = True\<rparr> #
      [Write [Text ''Hel''], Write [Text ''lo''], Write [Text ''!''], Print []],
      Inr (VStr ''Hello!''))"
proof -
  have "map message_content [reply ''Hel'', reply ''lo'', reply ''!''] =
        map (\<lambda>s. Inr (VStr s)) [''Hel'', ''lo'', ''!'']"
    by (simp add: message_content_def reply_def)
  then show ?thesis
    using streaming_returns_concatenation
            [of streaming_chat "''m''" "''hi''" 512 "Finite 0.7"
                "[reply ''Hel'', reply ''lo'', reply ''!'']" "[''Hel'', ''lo'', ''!'']"]
    by (simp add: streaming_chat_def)
qed

lemma py_getitem_raises_Exception: "py_getitem x k = Inl e \<Longrightarrow> is_Exception e"
  by (cases x) (auto split: option.splits)

lemma message_content_raises_Exception: "message_content x = Inl e \<Longrightarrow> is_Exception e"
  by (auto simp: message_content_def split: sum.splits dest: py_getitem_raises_Exception)

text \<open>
  C7, as stated, fails: \<^verbatim>\<open>except Exception\<close> does not catch a \<^verbatim>\<open>KeyboardInterrupt\<close>
  raised while the chat call is waiting, so single-shot generation passes it on to its
  caller.
\<close>

theorem interrupt_propagates:
  "snd (generate_text_ollama_lib interrupted_chat ''m'' ''hi'' 512 (Finite 0.7)) =
     Inl (Exn KeyboardInterrupt [])"
  by (simp add: generate_text_ollama_lib_def interrupted_chat_def)

text \<open>
  C7, amended. When the chat call raises an exception that derives from \<^verbatim>\<open>Exception\<close>,
  single-shot generation logs it and returns \<^verbatim>\<open>None\<close>. When the call returns a response,
  the function returns the content of the response's message; if the response has no
  such content, the lookup's exception is logged and \<^verbatim>\<open>None\<close> is returned. The only
  exceptions that reach the caller are those the chat call raised that do not derive
  from \<^verbatim>\<open>Exception\<close> (\<^verbatim>\<open>KeyboardInterrupt\<close>, \<^verbatim>\<open>SystemExit\<close>).
\<close>

theorem generate_catches_Exception:
  "(chat \<lparr>model = m, messages = user_messages p, options = chat_options ml t, stream = False\<rparr>
      = Inl e \<and> is_Exception e \<longrightarrow>
      generate_text_ollama_lib chat m p ml t =
        ([Chat \<lparr>model = m, messages = user_messages p, options = chat_options ml t, stream = False\<rparr>,
          Print [Text ''Error generating text with ollama library: '', Str_of_exn e]],
         Inr VNone))
   \<and> (chat \<lparr>model = m, messages = user_messages p, options = chat_options ml t, stream = False\<rparr>
      = Inr response \<and> message_content response = Inr v \<longrightarrow>
      generate_text_ollama_lib chat m p ml t =
        ([Chat \<lparr>model = m, messages = user_messages p, options = chat_options ml t, stream = False\<rparr>],
         Inr v))
   \<and> (chat \<lparr>model = m, messages = user_messages p, options = chat_options ml t, stream = False\<rparr>
      = Inr response \<and> message_content response = Inl e' \<longrightarrow>
      generate_text_ollama_lib chat m p ml t =
        ([Chat \<lparr>model = m, messages = user_messages p, options = chat_options ml t, stream = False\<rparr>,
          Print [Text ''Error generating text with ollama library: '', Str_of_exn e']],
         Inr VNone))
   \<and> (snd (generate_text_ollama_lib chat m p ml t) = Inl x \<longrightarrow>
      \<not> is_Exception x \<and>
      chat \<lparr>model = m, messages = user_messages p, options = chat_options ml t, stream = False\<rparr>
        = Inl x)"
proof (intro conjI impI)
  let ?req = "\<lparr>model = m, messages = user_messages p, options = chat_options ml t, stream = False\<rparr>"
  assume "chat ?req = Inl e \<and> is_Exception e"
  then show "generate_text_ollama_lib chat m p ml t =
        ([Chat ?req, Print [Text ''Error generating text with ollama library: '', Str_of_exn e]],
         Inr VNone)"
    by (simp add: generate_text_ollama_lib_def)
next
  let ?req = "\<lparr>model = m, messages = user_messages p, options = chat_options ml t, stream = False\<rparr>"
  assume "chat ?req = Inr response \<and> message_content response = Inr v"
  then show "generate_text_ollama_lib chat m p ml t = ([Chat ?req], Inr v)"
    by (simp add: generate_text_ollama_lib_def)
next
  let ?req = "\<lparr>model = m, messages = user_messages p, options = chat_options ml t, stream = False\<rparr>"
  assume a: "chat ?req = Inr response \<and> message_content response = Inl e'"
  then have "is_Exception e'" by (blast dest: message_content_raises_Exception)
  with a show "generate_text_ollama_lib chat m p ml t =
        ([Chat ?req, Print [Text ''Error generating text with ollama library: '', Str_of_exn e']],
         Inr VNone)"
    by (simp add: generate_text_ollama_lib_def)
next
  let ?req = "\<lparr>model = m, messages = user_messages p, options = chat_options ml t, stream = False\<rparr>"
  assume a: "snd (generate_text_ollama_lib chat m p ml t) = Inl x"
  show "\<not> is_Exception x"
    using a
    by (auto simp: generate_text_ollama_lib_def Let_def snd_except_generate
             split: sum.splits if_splits)
  show "chat ?req = Inl x"
    using a
    by (auto simp: generate_text_ollama_lib_def Let_def snd_except_generate
             split: sum.splits if_splits dest: message_content_raises_Exception)
qed

theorem generate_catches_Exception_witness:
  "generate_text_ollama_lib failing_chat ''m'' ''hi'' 512 (Finite 0.7) =
     ([Chat \<lparr>model = ''m'', messages = user_messages ''hi'',
             options = chat_options 512 (Finite 0.7), stream = False\<rparr>,
       Print [Text ''Error generating text with ollama library: '',
              Str_of_exn (Exn ResponseError ''model not found'')]],
      Inr VNone)
   \<and> generate_text_ollama_lib answering_chat ''m'' ''hi'' 512 (Finite 0.7) =
     ([Chat \<lparr>model = ''m'', messages = user_messages ''hi'',
             options = chat_options 512 (Finite 0.7), stream = False\<rparr>],
      Inr (VStr ''Hello!''))"
proof -
  have c: "message_content (reply ''Hello!'') = Inr (VStr ''Hello!'')"
    by (simp add: message_content_def reply_def)
  show ?thesis
    using generate_catches_Exception
            [where chat = failing_chat and m = "''m''" and p = "''hi''" and ml = 512
               and t = "Finite 0.7" and e = "Exn ResponseError ''model not found''"]
          generate_catches_Exception
            [where chat = answering_chat and m = "''m''" and p = "''hi''" and ml = 512
               and t = "Finite 0.7" and response = "reply ''Hello!''" and v = "VStr ''Hello!''"]
          c
    by (simp add: failing_chat_def answering_chat_def)
qed

subsection \<open>Local registration\<close>

lemma basename_no_slash: "CHR ''/'' \<notin> set (basename p)"
  using set_takeWhileD [of "CHR ''/''" "\<lambda>c. c \<noteq> CHR ''/''" "rev p"]
  by (auto simp: basename_def)

lemma basename_suffix: "suffix (basename p) p"
proof -
  have "rev p = takeWhile (\<lambda>c. c \<noteq> CHR ''/'') (rev p) @ dropWhile (\<lambda>c. c \<noteq> CHR ''/'') (rev p)"
    by simp
  then have "p = rev (dropWhile (\<lambda>c. c \<noteq> CHR ''/'') (rev p)) @ basename p"
    unfolding basename_def by (metis rev_append rev_rev_ident)
  then show ?thesis by (metis suffixI)
qed

lemma basename_last_component:
  assumes "CHR ''/'' \<notin> set f"
  shows "basename (d @ ''/'' @ f) = f"
proof -
  have all: "\<And>x. x \<in> set (rev f) \<Longrightarrow> x \<noteq> CHR ''/''" using assms by auto
  have "takeWhile (\<lambda>c. c \<noteq> CHR ''/'') (rev f @ CHR ''/'' # rev d) =
        rev f @ takeWhile (\<lambda>c. c \<noteq> CHR ''/'') (CHR ''/'' # rev d)"
    by (rule takeWhile_append2) (rule all)
  then show ?thesis by (simp add: basename_def)
qed

lemma dirname_containing:
  assumes "CHR ''/'' \<notin> set f" "d \<noteq> []" "last d \<noteq> CHR ''/''"
  shows "dirname (d @ ''/'' @ f) = d"
proof -
  from assms(2,3) obtain ds x where d: "d = ds @ [x]" and x: "x \<noteq> CHR ''/''"
    by (cases d rule: rev_cases) auto
  have all: "\<And>c. c \<in> set (rev f) \<Longrightarrow> c \<noteq> CHR ''/''" using assms(1) by auto
  have "dropWhile (\<lambda>c. c \<noteq> CHR ''/'') (rev f @ CHR ''/'' # x # rev ds) =
        dropWhile (\<lambda>c. c \<noteq> CHR ''/'') (CHR ''/'' # x # rev ds)"
    by (rule dropWhile_append2) (rule all)
  then have dw: "dropWhile (\<lambda>c. c \<noteq> CHR ''/'') (rev f @ CHR ''/'' # x # rev ds) =
        CHR ''/'' # x # rev ds"
    by simp
  show ?thesis
    using x by (simp add: dirname_def d dw)
qed

lemma path_join_plain:
  "a \<noteq> [] \<Longrightarrow> last a \<noteq> CHR ''/'' \<Longrightarrow> CHR ''/'' \<notin> set b \<Longrightarrow> path_join a b = a @ ''/'' @ b"
  by (cases b) (auto simp: path_join_def)

lemma except_register_writes:
  "File_write path content \<in> set (fst (except_register r)) \<Longrightarrow>
   File_write path content \<in> set (fst r)"
  by (induction r rule: except_register.induct) (auto split: if_splits)

lemma except_register_keeps:
  "x \<in> set (fst r) \<Longrightarrow> x \<in> set (fst (except_register r))"
  by (induction r rule: except_register.induct) auto

lemma register_writes:
  "File_write path content \<in> set (fst (register_gguf_model w folder file name)) \<Longrightarrow>
   path = path_join folder ''Modelfile'' \<and> content = ''FROM ./'' @ file @ [nl]"
  unfolding register_gguf_model_def Let_def
  by (auto dest!: except_register_writes split: if_splits option.splits)

lemma register_written:
  assumes "path_isfile w (path_join folder file)"
    and "open_w w (path_join folder ''Modelfile'') = None"
    and "file_write w (path_join folder ''Modelfile'') (''FROM ./'' @ file @ [nl]) = None"
  shows "File_write (path_join folder ''Modelfile'') (''FROM ./'' @ file @ [nl])
           \<in> set (fst (register_gguf_model w folder file name))"
  unfolding register_gguf_model_def Let_def using assms
  by (auto intro!: except_register_keeps split: option.splits)

text \<open>
  C6. Local registration, called as the resolver calls it (with the directory part and
  the base name of the path), writes nothing but the \<^verbatim>\<open>Modelfile\<close> in the file's
  directory, and what it writes there is the line \<^verbatim>\<open>FROM ./\<close> followed by the base name.
  It does write it whenever the file exists and the manifest can be opened and written.
  The base name is the part of the path after its last slash, whatever stands before:
  for a file \<open>f\<close> in a directory \<open>d\<close> of any depth, the resolver writes
  \<^verbatim>\<open>FROM ./f\<close> into \<^verbatim>\<open>d/Modelfile\<close>.
\<close>

theorem manifest_names_base_name:
  "(\<forall>path content.
      File_write path content \<in> set (fst (register_gguf_model w (dirname p) (basename p) name)) \<longrightarrow>
      path = path_join (dirname p) ''Modelfile'' \<and> content = ''FROM ./'' @ basename p @ [nl])
   \<and> (path_isfile w (path_join (dirname p) (basename p)) \<and>
      open_w w (path_join (dirname p) ''Modelfile'') = None \<and>
      file_write w (path_join (dirname p) ''Modelfile'') (''FROM ./'' @ basename p @ [nl]) = None \<longrightarrow>
      File_write (path_join (dirname p) ''Modelfile'') (''FROM ./'' @ basename p @ [nl])
        \<in> set (fst (register_gguf_model w (dirname p) (basename p) name)))
   \<and> suffix (basename p) p \<and> CHR ''/'' \<notin> set (basename p)
   \<and> (CHR ''/'' \<notin> set f \<and> d \<noteq> [] \<and> last d \<noteq> CHR ''/'' \<and>
      path_isfile w (d @ ''/'' @ f) \<and> open_w w (d @ ''/Modelfile'') = None \<and>
      file_write w (d @ ''/Modelfile'') (''FROM ./'' @ f @ [nl]) = None \<and>
      snd (check_ollama_running c w) = Inr True \<and> snd (list_models c w) = Inr available \<and>
      VStr name \<notin> set available \<longrightarrow>
      File_write (d @ ''/Modelfile'') (''FROM ./'' @ f @ [nl])
        \<in> set (fst (check_and_setup_model c w name hf (Some (d @ ''/'' @ f)))))"
proof (intro conjI allI impI)
  fix path content
  assume "File_write path content \<in> set (fst (register_gguf_model w (dirname p) (basename p) name))"
  then show "path = path_join (dirname p) ''Modelfile''" and "content = ''FROM ./'' @ basename p @ [nl]"
    by (auto dest: register_writes)
next
  assume "path_isfile w (path_join (dirname p) (basename p)) \<and>
      open_w w (path_join (dirname p) ''Modelfile'') = None \<and>
      file_write w (path_join (dirname p) ''Modelfile'') (''FROM ./'' @ basename p @ [nl]) = None"
  then show "File_write (path_join (dirname p) ''Modelfile'') (''FROM ./'' @ basename p @ [nl])
        \<in> set (fst (register_gguf_model w (dirname p) (basename p) name))"
    by (blast intro: register_written)
next
  show "suffix (basename p) p" by (rule basename_suffix)
next
  show "CHR ''/'' \<notin> set (basename p)" by (rule basename_no_slash)
next
  assume a: "CHR ''/'' \<notin> set f \<and> d \<noteq> [] \<and> last d \<noteq> CHR ''/'' \<and>
      path_isfile w (d @ ''/'' @ f) \<and> open_w w (d @ ''/Modelfile'') = None \<and>
      file_write w (d @ ''/Modelfile'') (''FROM ./'' @ f @ [nl]) = None \<and>
      snd (check_ollama_running c w) = Inr True \<and> snd (list_models c w) = Inr available \<and>
      VStr name \<notin> set available"
  let ?p = "d @ ''/'' @ f"
  from a have f: "CHR ''/'' \<notin> set f" and d: "d \<noteq> []" "last d \<noteq> CHR ''/''"
    by simp_all
  have "dirname ?p = d" using f d by (rule dirname_containing)
  then have dir: "dirname (d @ CHR ''/'' # f) = d" by simp
  have "basename ?p = f" using f by (rule basename_last_component)
  then have base: "basename (d @ CHR ''/'' # f) = f" by simp
  have "path_join d f = ?p" using d f by (rule path_join_plain)
  then have j1: "path_join d f = d @ CHR ''/'' # f" by simp
  have "path_join d ''Modelfile'' = d @ ''/'' @ ''Modelfile''"
    using d by (rule path_join_plain) simp
  then have j2: "path_join d ''Modelfile'' = d @ ''/Modelfile''" by simp
  from a have reg: "File_write (d @ ''/Modelfile'') (''FROM ./'' @ f @ [nl])
      \<in> set (fst (register_gguf_model w d f name))"
    using register_written [of w d f name] by (simp add: j1 j2)
  obtain es1 where 1: "check_ollama_running c w = (es1, Inr True)"
    using a by (cases "check_ollama_running c w") simp
  obtain es2 where 2: "list_models c w = (es2, Inr available)"
    using a by (cases "list_models c w") simp
  from a have 3: "VStr name \<notin> set available" by simp
  have "truthy_opt (Some ?p)" by simp
  then show "File_write (d @ ''/Modelfile'') (''FROM ./'' @ f @ [nl])
        \<in> set (fst (check_and_setup_model c w name hf (Some ?p)))"
    using reg by (simp add: resolver_unlisted [OF 1 2 3] Let_def dir base)
qed

theorem manifest_names_base_name_witness:
  "File_write ''/models/deep/down/Modelfile'' (''FROM ./y.gguf'' @ [nl])
     \<in> set (fst (check_and_setup_model local_client stalled_world ''y'' None
                   (Some ''/models/deep/down/y.gguf'')))"
proof -
  have run: "snd (check_ollama_running local_client stalled_world) = Inr True"
    unfolding stalled_world_def by (rule sample_world_running)
  have lst: "snd (list_models local_client stalled_world) = Inr []"
    using sample_world_listing [of _ "[]"] by (simp add: stalled_world_def)
  have fs: "path_isfile stalled_world x" "open_w stalled_world x = None"
    "file_write stalled_world x y = None" for x y
    by (simp_all add: stalled_world_def sample_world_def)
  show ?thesis
    using manifest_names_base_name
            [where w = stalled_world and c = local_client and d = "''/models/deep/down''"
               and f = "''y.gguf''" and name = "''y''" and available = "[]" and hf = None]
          run lst fs
    by simp
qed

subsection \<open>The interactive loop\<close>

lemma turn_help: "interactive_turn chat m (Inr ''help'') =
   ([Input ''You: '',
     Print [Text ''Commands:''],
     Print [Text ''  quit - Exit the program''],
     Print [Text ''  help - Show this help message''],
     Print [Text ''  clear - Clear the conversation'']], Again)"
  by (simp add: interactive_turn_def py_strip_def py_isspace_def py_lower_def lower_char_def)

lemma turn_quit: "interactive_turn chat m (Inr ''quit'') =
   ([Input ''You: '', Print [Text ''Goodbye!'']], Stop)"
  by (simp add: interactive_turn_def py_strip_def py_isspace_def py_lower_def lower_char_def)

lemma turn_blank: "py_strip raw = [] \<Longrightarrow> interactive_turn chat m (Inr raw) = ([Input ''You: ''], Again)"
  by (simp add: interactive_turn_def py_lower_def)

lemma loop_again:
  "interactive_turn (chats n) m (next_input stdin) = (es, Again) \<Longrightarrow>
   interactive_loop chats m stdin n acc = interactive_loop chats m (tl stdin) (Suc n) (acc @ es)"
  by (subst interactive_loop.simps) simp

lemma loop_stop:
  "interactive_turn (chats n) m (next_input stdin) = (es, Stop) \<Longrightarrow>
   interactive_loop chats m stdin n acc = Some (acc @ es, Inr ())"
  by (subst interactive_loop.simps) simp

text \<open>
  C8. Given \<^verbatim>\<open>help\<close> and then \<^verbatim>\<open>quit\<close> (whatever input follows), the interactive loop
  returns normally; after its banner it prompts, prints the four lines of the command
  list once, prompts again and prints \<^verbatim>\<open>Goodbye!\<close>, and makes no chat call. A line
  that is empty after stripping costs one prompt and nothing else: the loop goes on with
  the next input as if it had started there.
\<close>

theorem help_then_quit:
  "interactive_mode chats m (Inr ''help'' # Inr ''quit'' # rest) =
     Some ([Print [Text (nl # ''=== Interactive Mode ==='')],
            Print [Text ''Type 'quit' to exit, 'help' for commands''],
            Print [Text (''Type your message and press Enter to generate a response.'' @ [nl])],
            Input ''You: '',
            Print [Text ''Commands:''],
            Print [Text ''  quit - Exit the program''],
            Print [Text ''  help - Show this help message''],
            Print [Text ''  clear - Clear the conversation''],
            Input ''You: '',
            Print [Text ''Goodbye!'']],
           Inr ())
   \<and> (py_strip raw = [] \<longrightarrow>
        interactive_loop chats m (Inr raw # stdin) n acc =
          interactive_loop chats m stdin (Suc n) (acc @ [Input ''You: '']))"
proof (intro conjI impI)
  have 1: "interactive_turn (chats 0) m (next_input (Inr ''help'' # Inr ''quit'' # rest)) =
     ([Input ''You: '',
       Print [Text ''Commands:''],
       Print [Text ''  quit - Exit the program''],
       Print [Text ''  help - Show this help message''],
       Print [Text ''  clear - Clear the conversation'']], Again)"
    by (simp add: next_input_def turn_help)
  have 2: "interactive_turn (chats (Suc 0)) m (next_input (Inr ''quit'' # rest)) =
     ([Input ''You: '', Print [Text ''Goodbye!'']], Stop)"
    by (simp add: next_input_def turn_quit)
  show "interactive_mode chats m (Inr ''help'' # Inr ''quit'' # rest) =
     Some ([Print [Text (nl # ''=== Interactive Mode ==='')],
            Print [Text ''Type 'quit' to exit, 'help' for commands''],
            Print [Text (''Type your message and press Enter to generate a response.'' @ [nl])],
            Input ''You: '',
            Print [Text ''Commands:''],
            Print [Text ''  quit - Exit the program''],
            Print [Text ''  help - Show this help message''],
            Print [Text ''  clear - Clear the conversation''],
            Input ''You: '',
            Print [Text ''Goodbye!'']],
           Inr ())"
    unfolding interactive_mode_def
    by (simp add: loop_again [of chats 0, OF 1] loop_stop [of chats "Suc 0", OF 2])
next
  assume "py_strip raw = []"
  then have "interactive_turn (chats n) m (next_input (Inr raw # stdin)) = ([Input ''You: ''], Again)"
    by (simp add: next_input_def turn_blank)
  then show "interactive_loop chats m (Inr raw # stdin) n acc =
          interactive_loop chats m stdin (Suc n) (acc @ [Input ''You: ''])"
    by (simp add: loop_again [of chats n])
qed

theorem help_then_quit_witness:
  "py_strip ''   '' = []
   \<and> interactive_loop streaming_chats ''m'' [Inr ''   '', Inr ''quit''] 0 [] =
       Some ([Input ''You: '', Input ''You: '', Print [Text ''Goodbye!'']], Inr ())"
proof -
  have b: "py_strip ''   '' = []"
    by (simp add: py_strip_def py_isspace_def)
  have "interactive_turn (streaming_chats (Suc 0)) ''m'' (next_input [Inr ''quit'']) =
     ([Input ''You: '', Print [Text ''Goodbye!'']], Stop)"
    by (simp add: next_input_def turn_quit)
  then have q: "interactive_loop streaming_chats ''m'' [Inr ''quit''] (Suc 0) [Input ''You: ''] =
       Some ([Input ''You: '', Input ''You: '', Print [Text ''Goodbye!'']], Inr ())"
    by (simp add: loop_stop [of streaming_chats "Suc 0"])
  show ?thesis
    using help_then_quit [of streaming_chats "''m''" "[]" "''   ''" "[Inr ''quit'']" 0 "[]"] b q
    by simp
qed

subsection \<open>The entry point\<close>

lemma suffix_path_join: "suffix b (path_join a b)"
  by (simp add: path_join_def suffix_def)

lemma find_gguf_files_suffix:
  "f \<in> set (snd (find_gguf_files w d)) \<Longrightarrow> suffix ''.gguf'' f"
  by (auto simp: find_gguf_files_def split: if_splits
           intro: suffix_order.trans [OF _ suffix_path_join])

lemma find_Some_sublist:
  "find P xs = Some x \<Longrightarrow> P x \<and> x \<in> set xs"
  by (induction xs) (auto split: if_splits)

lemma find_None_all: "\<forall>x \<in> set xs. \<not> P x \<Longrightarrow> find P xs = None"
  by (induction xs) auto

lemma main_starts_with_discovery:
  "main w chat chats stdin a = Some (es, r) \<Longrightarrow>
   prefix (fst (discover_gguf w a) @
           fst (check_and_setup_model \<lparr>base_url = arg_ollama_url a\<rparr> w (arg_model a)
                  (select_huggingface_model a) (snd (discover_gguf w a)))) es"
  by (auto simp: main_def Let_def split: prod.splits sum.splits if_splits)

text \<open>
  C9. The entry point searches the models directory only when no local file path is
  given (none, or an empty one) and the model name is the built-in default
  \<^verbatim>\<open>gemma-3-4b-it-qat-abliterated\<close>. For any other model name, or with a path given, it
  searches nothing and hands the command line's path on unchanged, so without a path
  the resolver gets none. When the search is what supplies a path, that path is one of
  the discovered \<^verbatim>\<open>.gguf\<close> files and contains the default model name; when no
  discovered file contains it, the resolver gets no path. The entry point's trace begins
  with this step, followed by the resolver called with the resulting path.
\<close>

theorem discovery_only_for_default:
  "(fst (discover_gguf w a) \<noteq> [] \<longrightarrow>
      \<not> truthy_opt (arg_gguf_path a) \<and> arg_model a = default_model)
   \<and> (arg_model a \<noteq> default_model \<or> truthy_opt (arg_gguf_path a) \<longrightarrow>
      discover_gguf w a = ([], arg_gguf_path a))
   \<and> (\<not> truthy_opt (arg_gguf_path a) \<and> truthy_opt (snd (discover_gguf w a)) \<longrightarrow>
      arg_model a = default_model \<and>
      (\<exists>f. snd (discover_gguf w a) = Some f \<and> sublist default_model f \<and>
           f \<in> set (snd (find_gguf_files w (arg_models_dir a))) \<and> suffix ''.gguf'' f))
   \<and> (\<not> truthy_opt (arg_gguf_path a) \<and>
      (\<forall>f \<in> set (snd (find_gguf_files w (arg_models_dir a))). \<not> sublist default_model f) \<longrightarrow>
      snd (discover_gguf w a) = arg_gguf_path a)
   \<and> (main w chat chats stdin a = Some (es, r) \<longrightarrow>
      prefix (fst (discover_gguf w a) @
              fst (check_and_setup_model \<lparr>base_url = arg_ollama_url a\<rparr> w (arg_model a)
                     (select_huggingface_model a) (snd (discover_gguf w a)))) es)"
proof (intro conjI impI)
  assume "fst (discover_gguf w a) \<noteq> []"
  then show "\<not> truthy_opt (arg_gguf_path a)" and "arg_model a = default_model"
    by (auto simp: discover_gguf_def split: if_splits)
next
  assume "arg_model a \<noteq> default_model \<or> truthy_opt (arg_gguf_path a)"
  then show "discover_gguf w a = ([], arg_gguf_path a)"
    by (auto simp: discover_gguf_def)
next
  assume a: "\<not> truthy_opt (arg_gguf_path a) \<and> truthy_opt (snd (discover_gguf w a))"
  then show "arg_model a = default_model"
    by (auto simp: discover_gguf_def split: if_splits)
  obtain fx gguf_files where ff: "find_gguf_files w (arg_models_dir a) = (fx, gguf_files)"
    by (cases "find_gguf_files w (arg_models_dir a)")
  from a obtain f where f: "find (sublist default_model) gguf_files = Some f"
    and s: "snd (discover_gguf w a) = Some f"
    by (cases "find (sublist default_model) gguf_files")
       (auto simp: discover_gguf_def ff split: if_splits)
  from f have "sublist default_model f" "f \<in> set gguf_files"
    by (auto dest: find_Some_sublist)
  moreover from this ff have "suffix ''.gguf'' f"
    using find_gguf_files_suffix [of f w "arg_models_dir a"] by simp
  ultimately show "\<exists>f. snd (discover_gguf w a) = Some f \<and> sublist default_model f \<and>
           f \<in> set (snd (find_gguf_files w (arg_models_dir a))) \<and> suffix ''.gguf'' f"
    using s ff by auto
next
  assume a: "\<not> truthy_opt (arg_gguf_path a) \<and>
      (\<forall>f \<in> set (snd (find_gguf_files w (arg_models_dir a))). \<not> sublist default_model f)"
  then have "find (sublist default_model) (snd (find_gguf_files w (arg_models_dir a))) = None"
    by (blast intro: find_None_all)
  then show "snd (discover_gguf w a) = arg_gguf_path a"
    by (simp add: discover_gguf_def case_prod_beta)
next
  assume "main w chat chats stdin a = Some (es, r)"
  then show "prefix (fst (discover_gguf w a) @
              fst (check_and_setup_model \<lparr>base_url = arg_ollama_url a\<rparr> w (arg_model a)
                     (select_huggingface_model a) (snd (discover_gguf w a)))) es"
    by (rule main_starts_with_discovery)
qed

lemma discovered_name:
  "sublist default_model ''/Users/mattnevle/Models/huggingface/sub/gemma-3-4b-it-qat-abliterated.gguf''"
  by (simp add: default_model_def sublist_code prefix_code)


theorem discovery_only_for_default_witness:
  "discover_gguf stalled_world (default_args\<lparr>arg_model := ''llama3''\<rparr>) = ([], None)
   \<and> snd (discover_gguf stalled_world default_args) =
       Some ''/Users/mattnevle/Models/huggingface/sub/gemma-3-4b-it-qat-abliterated.gguf''
   \<and> sublist default_model
        ''/Users/mattnevle/Models/huggingface/sub/gemma-3-4b-it-qat-abliterated.gguf''"
proof -
  have walk: "find_gguf_files stalled_world ''/Users/mattnevle/Models/huggingface'' =
      ([Path_exists ''/Users/mattnevle/Models/huggingface'',
        Os_walk ''/Users/mattnevle/Models/huggingface''],
       [''/Users/mattnevle/Models/huggingface/sub/gemma-3-4b-it-qat-abliterated.gguf''])"
    by (simp add: find_gguf_files_def stalled_world_def sample_world_def path_join_def
          suffix_def)
  have d: "snd (discover_gguf stalled_world default_args) =
       Some ''/Users/mattnevle/Models/huggingface/sub/gemma-3-4b-it-qat-abliterated.gguf''"
    using discovered_name
    by (simp add: discover_gguf_def default_args_def walk default_model_def)
  have other: "arg_model (default_args\<lparr>arg_model := ''llama3''\<rparr>) \<noteq> default_model"
    by (simp add: default_model_def default_args_def)
  have none: "arg_gguf_path (default_args\<lparr>arg_model := ''llama3''\<rparr>) = None"
    "arg_gguf_path default_args = None"
    by (simp_all add: default_args_def)
  have "discover_gguf stalled_world (default_args\<lparr>arg_model := ''llama3''\<rparr>) =
          ([], arg_gguf_path (default_args\<lparr>arg_model := ''llama3''\<rparr>))"
    using discovery_only_for_default
            [where w = stalled_world and a = "default_args\<lparr>arg_model := ''llama3''\<rparr>"]
          other
    by blast
  then have 1: "discover_gguf stalled_world (default_args\<lparr>arg_model := ''llama3''\<rparr>) = ([], None)"
    by (simp only: none)
  have pre: "\<not> truthy_opt (arg_gguf_path default_args) \<and>
             truthy_opt (snd (discover_gguf stalled_world default_args))"
    by (simp only: none d) simp
  obtain f where "snd (discover_gguf stalled_world default_args) = Some f"
    and sub: "sublist default_model f"
    using discovery_only_for_default [where w = stalled_world and a = default_args] pre
    by blast
  with d have "f = ''/Users/mattnevle/Models/huggingface/sub/gemma-3-4b-it-qat-abliterated.gguf''"
    by (simp only: option.inject)
  with sub have 2: "sublist default_model
        ''/Users/mattnevle/Models/huggingface/sub/gemma-3-4b-it-qat-abliterated.gguf''"
    by (simp only:)
  from 1 d 2 show ?thesis by (intro conjI)
qed

end
